theory Spec2Isabelle
  imports Complex_Main
begin

section \<open>zetapy: the ZETA test pipeline of dependencies.py\<close>

text \<open>
  Numbers are exact reals in the pipeline up to the deviation curves. In the significance
  step (\<open>getZetaP\<close>, \<open>getGumbel\<close>) a value is a real or an IEEE special value (the type
  \<open>fval\<close> below): the source tests for them (\<open>np.isnan\<close>, \<open>np.isinf\<close>) and numpy produces
  them there (the mean of an empty array, the division by a scale of zero). Rounding is
  modelled at one place, the value of the Gumbel CDF. Exceptions are values of the type
  \<open>error\<close>, and the state of the random generator is passed explicitly.
\<close>

subsection \<open>Errors and arrays\<close>

datatype error =
    InputError    \<comment> \<open>\<open>raise Exception("Input error: arrEventTimes must be T-by-1 or T-by-2 ...")\<close>\<close>
  | IndexError    \<comment> \<open>an index out of bounds, or an index array that is not of integer type\<close>
  | ValueError    \<comment> \<open>a reduction (\<open>np.min\<close>, \<open>max\<close>) over an empty array, \<open>math.sqrt\<close> below zero\<close>

text \<open>
  \<open>arrEventTimes\<close> is a float array of one or two dimensions (the \<open>assert\<close> of
  \<open>calcZetaOne\<close> admits nothing else). A 2-D array carries its shape and its rows.
\<close>

datatype ndarray =
    Arr1D "real list"
  | Arr2D nat nat "real list list"





text \<open>\<open>arr.T\<close> of a 2-D array of shape (r, c): c rows of r entries.\<close>

definition transposeRows :: "nat \<Rightarrow> real list list \<Rightarrow> real list list" where
  "transposeRows c rows = map (\<lambda>j. map (\<lambda>row. row ! j) rows) [0..<c]"

text \<open>
  Lines 45-57 of \<open>calcZetaOne\<close>: the orientation of \<open>arrEventTimes\<close>. A 2-D array with
  fewer than 3 columns is kept, one with fewer than 3 rows is transposed, any other
  raises; a 1-D array is reshaped to T-by-1.
\<close>

fun orientEventTimes :: "ndarray \<Rightarrow> error + ndarray" where
  "orientEventTimes (Arr1D xs) = Inr (Arr2D (length xs) 1 (map (\<lambda>x. [x]) xs))"
| "orientEventTimes (Arr2D r c rows) =
     (if c < 3 then Inr (Arr2D r c rows)
      else if r < 3 then Inr (Arr2D c r (transposeRows c rows))
      else Inl InputError)"

text \<open>Line 59: \<open>vecEventT = arrEventTimes[:, 0]\<close>, out of bounds when there is no column.\<close>

fun firstColumn :: "ndarray \<Rightarrow> error + real list" where
  "firstColumn (Arr1D xs) = Inl IndexError"
| "firstColumn (Arr2D r c rows) =
     (if c = 0 then Inl IndexError else Inr (map (\<lambda>row. row ! 0) rows))"

text \<open>\<open>np.min\<close> and the builtin \<open>max\<close>: both raise ValueError on an empty array.\<close>

fun np_min :: "real list \<Rightarrow> error + real" where
  "np_min [] = Inl ValueError"
| "np_min (x # xs) = Inr (fold min xs x)"

fun py_max :: "real list \<Rightarrow> error + real" where
  "py_max [] = Inl ValueError"
| "py_max (x # xs) = Inr (fold max xs x)"

subsection \<open>calcZetaOne: the reduce-spikes step\<close>

text \<open>
  Lines 61-64:
  \<^verbatim>\<open>
  dblMinPreEventT = np.min(vecEventT)-dblUseMaxDur*5*dblJitterSize
  dblStartT = max([vecSpikeTimes[0], dblMinPreEventT])
  dblStopT = max(vecEventT)+dblUseMaxDur*5*dblJitterSize
  vecSpikeTimes = vecSpikeTimes[np.logical_and(vecSpikeTimes > dblStartT, vecSpikeTimes < dblStopT)]
  \<close>
\<close>

definition reduceSpikes :: "real list \<Rightarrow> real list \<Rightarrow> real \<Rightarrow> real \<Rightarrow> error + real list" where
  "reduceSpikes vecSpikeTimes vecEventT dblUseMaxDur dblJitterSize =
     (case np_min vecEventT of
        Inl e \<Rightarrow> Inl e
      | Inr dblMinEventT \<Rightarrow>
          (let dblMinPreEventT = dblMinEventT - dblUseMaxDur * 5 * dblJitterSize in
           case vecSpikeTimes of
             [] \<Rightarrow> Inl IndexError
           | dblFirstSpike # _ \<Rightarrow>
               (let dblStartT = max dblFirstSpike dblMinPreEventT in
                case py_max vecEventT of
                  Inl e \<Rightarrow> Inl e
                | Inr dblMaxEventT \<Rightarrow>
                    (let dblStopT = dblMaxEventT + dblUseMaxDur * 5 * dblJitterSize in
                     Inr (filter (\<lambda>t. t > dblStartT \<and> t < dblStopT) vecSpikeTimes)))))"

subsection \<open>Floating-point values\<close>

text \<open>
  A double is a real number or one of the special values. Finite arithmetic is exact (no
  rounding, no overflow) and zeros carry no sign. The operations follow IEEE 754 on the
  special values, as numpy does without raising (a division by zero is a warning there).
\<close>

datatype fval = Fin real | PInf | NInf | NaN

fun np_isnan :: "fval \<Rightarrow> bool" where
  "np_isnan NaN = True"
| "np_isnan _ = False"

fun np_isinf :: "fval \<Rightarrow> bool" where
  "np_isinf PInf = True"
| "np_isinf NInf = True"
| "np_isinf _ = False"

text \<open>\<open>d < m\<close> and \<open>d > m\<close> for a double d and a finite m; every comparison with NaN is false.\<close>

fun flt :: "fval \<Rightarrow> real \<Rightarrow> bool" where
  "flt (Fin x) m = (x < m)"
| "flt NInf m = True"
| "flt PInf m = False"
| "flt NaN m = False"

fun fgt :: "fval \<Rightarrow> real \<Rightarrow> bool" where
  "fgt (Fin x) m = (x > m)"
| "fgt PInf m = True"
| "fgt NInf m = False"
| "fgt NaN m = False"

fun fneg :: "fval \<Rightarrow> fval" where
  "fneg (Fin x) = Fin (- x)"
| "fneg PInf = NInf"
| "fneg NInf = PInf"
| "fneg NaN = NaN"

fun fsub :: "fval \<Rightarrow> fval \<Rightarrow> fval" where
  "fsub (Fin x) (Fin y) = Fin (x - y)"
| "fsub NaN _ = NaN"
| "fsub _ NaN = NaN"
| "fsub PInf PInf = NaN"
| "fsub NInf NInf = NaN"
| "fsub PInf _ = PInf"
| "fsub NInf _ = NInf"
| "fsub (Fin x) PInf = NInf"
| "fsub (Fin x) NInf = PInf"

fun fmul :: "fval \<Rightarrow> fval \<Rightarrow> fval" where
  "fmul (Fin x) (Fin y) = Fin (x * y)"
| "fmul NaN _ = NaN"
| "fmul _ NaN = NaN"
| "fmul PInf (Fin y) = (if y = 0 then NaN else if y > 0 then PInf else NInf)"
| "fmul NInf (Fin y) = (if y = 0 then NaN else if y > 0 then NInf else PInf)"
| "fmul (Fin x) PInf = (if x = 0 then NaN else if x > 0 then PInf else NInf)"
| "fmul (Fin x) NInf = (if x = 0 then NaN else if x > 0 then NInf else PInf)"
| "fmul PInf PInf = PInf"
| "fmul NInf NInf = PInf"
| "fmul PInf NInf = NInf"
| "fmul NInf PInf = NInf"

fun fdiv :: "fval \<Rightarrow> fval \<Rightarrow> fval" where
  "fdiv (Fin x) (Fin y) =
     (if y = 0 then (if x = 0 then NaN else if x > 0 then PInf else NInf) else Fin (x / y))"
| "fdiv NaN _ = NaN"
| "fdiv _ NaN = NaN"
| "fdiv (Fin x) PInf = Fin 0"
| "fdiv (Fin x) NInf = Fin 0"
| "fdiv PInf (Fin y) = (if y \<ge> 0 then PInf else NInf)"
| "fdiv NInf (Fin y) = (if y \<ge> 0 then NInf else PInf)"
| "fdiv PInf _ = NaN"
| "fdiv NInf _ = NaN"

fun fexp :: "fval \<Rightarrow> fval" where
  "fexp (Fin x) = Fin (exp x)"
| "fexp PInf = PInf"
| "fexp NInf = Fin 0"
| "fexp NaN = NaN"

text \<open>\<open>math.sqrt\<close> raises ValueError (math domain error) below zero.\<close>

fun math_sqrt :: "fval \<Rightarrow> error + fval" where
  "math_sqrt (Fin x) = (if x < 0 then Inl ValueError else Inr (Fin (sqrt x)))"
| "math_sqrt PInf = Inr PInf"
| "math_sqrt NInf = Inl ValueError"
| "math_sqrt NaN = Inr NaN"

text \<open>
  What the source takes from its libraries and the model cannot compute:
  \<^item> \<open>norm_ppf\<close>: \<open>scipy.stats.norm.ppf\<close> on a finite argument;
  \<^item> \<open>cdf_round\<close>: the rounding to a double of the value of the Gumbel CDF, the one
    place where rounding decides a branch of the source (the identity in exact arithmetic);
  \<^item> \<open>float_eps\<close>: \<open>np.finfo(dtype).eps\<close>.
\<close>

record numerics =
  norm_ppf :: "real \<Rightarrow> fval"
  cdf_round :: "real \<Rightarrow> real"
  float_eps :: real

fun ppf :: "numerics \<Rightarrow> fval \<Rightarrow> fval" where
  "ppf nm (Fin q) = norm_ppf nm q"
| "ppf nm _ = NaN"

fun fround :: "numerics \<Rightarrow> fval \<Rightarrow> fval" where
  "fround nm (Fin x) = Fin (cdf_round nm x)"
| "fround nm v = v"

text \<open>A value that is a scalar or an array, for \<open>isinstance(arrMaxD, Iterable)\<close> and the
  unwrapping of one-element results.\<close>

datatype 'a np_value = Scalar 'a | Array "'a list"

subsection \<open>numpy helpers\<close>

definition np_unique :: "real list \<Rightarrow> real list" where
  "np_unique xs = sort (remdups xs)"

definition first_index :: "real \<Rightarrow> real list \<Rightarrow> nat" where
  "first_index v xs = length (takeWhile (\<lambda>x. x \<noteq> v) xs)"

text \<open>\<open>np.unique(xs, return_index=True)\<close>: the sorted distinct values and the index of
  the first occurrence of each.\<close>

definition np_unique_index :: "real list \<Rightarrow> real list \<times> nat list" where
  "np_unique_index xs = (np_unique xs, map (\<lambda>v. first_index v xs) (np_unique xs))"

definition np_diff :: "int list \<Rightarrow> int list" where
  "np_diff xs = map (\<lambda>(a, b). b - a) (zip xs (tl xs))"

text \<open>\<open>xs[mask]\<close> for a boolean mask.\<close>

definition mask_select :: "'a list \<Rightarrow> bool list \<Rightarrow> 'a list" where
  "mask_select xs ind = map fst (filter snd (zip xs ind))"

definition np_linspace :: "real \<Rightarrow> real \<Rightarrow> nat \<Rightarrow> real list" where
  "np_linspace start stop num =
     (if num = 0 then []
      else if num = 1 then [start]
      else map (\<lambda>i. start + real i * ((stop - start) / real (num - 1))) [0..<num])"

text \<open>\<open>np.mean\<close> of a non-empty array; the mean of an empty array is NaN (\<open>np_mean_f\<close>).\<close>

definition np_mean :: "real list \<Rightarrow> real" where
  "np_mean xs = sum_list xs / real (length xs)"

definition np_mean_f :: "real list \<Rightarrow> fval" where
  "np_mean_f xs = (if xs = [] then NaN else Fin (np_mean xs))"

definition np_var_f :: "real list \<Rightarrow> fval" where
  "np_var_f xs =
     (if xs = [] then NaN else Fin (np_mean (map (\<lambda>x. (abs (x - np_mean xs))\<^sup>2) xs)))"

fun np_max :: "real list \<Rightarrow> error + real" where
  "np_max [] = Inl ValueError"
| "np_max (x # xs) = Inr (fold max xs x)"

text \<open>\<open>np.argmax\<close>: the first index of the maximum.\<close>

fun np_argmax :: "real list \<Rightarrow> error + nat" where
  "np_argmax [] = Inl ValueError"
| "np_argmax (x # xs) = Inr (first_index (fold max xs x) (x # xs))"

text \<open>
  \<open>np.interp(x, xp, fp)\<close> for increasing sample points: \<open>fp[0]\<close> left of them, \<open>fp[-1]\<close>
  right of them, and on the interval \<open>xp[j] \<le> x < xp[j+1]\<close> the value
  \<open>slope * (x - xp[j]) + fp[j]\<close>.
\<close>

fun np_interp :: "real \<Rightarrow> real list \<Rightarrow> real list \<Rightarrow> real" where
  "np_interp x (a # b # xp) (fa # fb # fp) =
     (if x \<le> a then fa
      else if x < b then (fb - fa) / (b - a) * (x - a) + fa
      else np_interp x (b # xp) (fb # fp))"
| "np_interp x [a] (fa # fp) = fa"
| "np_interp x xp fp = 0"

subsection \<open>getGumbel\<close>

definition dblEulerMascheroni :: real where
  "dblEulerMascheroni = 0.5772156649015328606065120900824"

text \<open>\<open>fGumbelCDF\<close>: \<open>np.exp(-np.exp(-((x-dblMode) / dblBeta)))\<close>.\<close>

definition fGumbelCDF :: "fval \<Rightarrow> fval \<Rightarrow> fval \<Rightarrow> fval" where
  "fGumbelCDF dblMode dblBeta x = fexp (fneg (fexp (fneg (fdiv (fsub x dblMode) dblBeta))))"

text \<open>
  One entry of the loop "approximation for large X":
  \<^verbatim>\<open>
  if np.isinf(dblZ):
      arrP[i] = exp(dblMode-arrX[i] / dblBeta)
      arrZ[i] = -stats.norm.ppf(arrP[i]/2)
  \<close>
\<close>

definition gumbelEntry :: "numerics \<Rightarrow> fval \<Rightarrow> fval \<Rightarrow> fval \<Rightarrow> fval \<times> fval" where
  "gumbelEntry nm dblMode dblBeta x =
     (let dblGumbelCDF = fround nm (fGumbelCDF dblMode dblBeta x);
          dblP = fsub (Fin 1) dblGumbelCDF;
          dblZ = fneg (ppf nm (fdiv dblP (Fin 2)))
      in if np_isinf dblZ
         then (let dblP2 = fexp (fsub dblMode (fdiv x dblBeta))
               in (dblP2, fneg (ppf nm (fdiv dblP2 (Fin 2)))))
         else (dblP, dblZ))"

definition getGumbel :: "numerics \<Rightarrow> fval \<Rightarrow> fval \<Rightarrow> fval list \<Rightarrow> error + (fval list \<times> fval list)" where
  "getGumbel nm dblE dblV arrX =
     (case math_sqrt dblV of
        Inl e \<Rightarrow> Inl e
      | Inr dblSqrtV \<Rightarrow>
          (let dblBeta = fdiv (fmul (Fin (sqrt 6)) dblSqrtV) (Fin pi);
               dblMode = fsub dblE (fmul dblBeta (Fin dblEulerMascheroni));
               arrPZ = map (gumbelEntry nm dblMode dblBeta) arrX
           in Inr (map fst arrPZ, map snd arrPZ)))"

subsection \<open>getZetaP\<close>

text \<open>
  The body of the loop of the direct-quantile mode, for one observed maximum d and the
  sorted distinct null maxima:
  \<^verbatim>\<open>
  if d < np.min(vecMaxRandD) or np.isnan(d):
      dblValue = 0
  elif d > np.max(vecMaxRandD) or np.isinf(d):
      dblValue = vecMaxRandD.size
  else:
      dblValue = np.interp(d, vecMaxRandD, np.arange(0, vecMaxRandD.size)+1)
  arrZetaP[i] = 1 - (dblValue/(1+vecMaxRandD.size))
  \<close>
\<close>

definition quantileRank :: "real list \<Rightarrow> fval \<Rightarrow> error + real" where
  "quantileRank vecMaxRandD d =
     (case np_min vecMaxRandD of
        Inl e \<Rightarrow> Inl e
      | Inr dblMin \<Rightarrow>
          if flt d dblMin \<or> np_isnan d then Inr 0
          else (case np_max vecMaxRandD of
                  Inl e \<Rightarrow> Inl e
                | Inr dblMax \<Rightarrow>
                    if fgt d dblMax \<or> np_isinf d then Inr (real (length vecMaxRandD))
                    else (case d of
                            Fin x \<Rightarrow> Inr (np_interp x vecMaxRandD
                                             (map (\<lambda>i. real i + 1) [0..<length vecMaxRandD]))
                          | _ \<Rightarrow> Inr 0)))"

definition quantileP :: "real list \<Rightarrow> fval \<Rightarrow> error + real" where
  "quantileP vecMaxRandD d =
     (case quantileRank vecMaxRandD d of
        Inl e \<Rightarrow> Inl e
      | Inr dblValue \<Rightarrow> Inr (1 - dblValue / (1 + real (length vecMaxRandD))))"

text \<open>The loop over \<open>arrMaxD\<close>: the first exception ends it.\<close>

fun mapE :: "('a \<Rightarrow> error + 'b) \<Rightarrow> 'a list \<Rightarrow> error + 'b list" where
  "mapE f [] = Inr []"
| "mapE f (x # xs) =
     (case f x of
        Inl e \<Rightarrow> Inl e
      | Inr y \<Rightarrow> (case mapE f xs of Inl e \<Rightarrow> Inl e | Inr ys \<Rightarrow> Inr (y # ys)))"

fun as_array :: "'a np_value \<Rightarrow> 'a list" where
  "as_array (Scalar x) = [x]"
| "as_array (Array xs) = xs"

text \<open>\<open>if arr.size == 1: arr = arr[0]\<close>.\<close>

fun unwrap1 :: "'a list \<Rightarrow> 'a np_value" where
  "unwrap1 [x] = Scalar x"
| "unwrap1 xs = Array xs"

definition getZetaP ::
  "numerics \<Rightarrow> fval np_value \<Rightarrow> real list \<Rightarrow> bool \<Rightarrow> error + (fval np_value \<times> fval np_value)" where
  "getZetaP nm arrMaxD0 vecMaxRandD0 boolDirectQuantile =
     (let vecMaxRandD = np_unique vecMaxRandD0;
          arrMaxD = as_array arrMaxD0
      in if boolDirectQuantile
         then (case mapE (quantileP vecMaxRandD) arrMaxD of
                 Inl e \<Rightarrow> Inl e
               | Inr arrP \<Rightarrow>
                   (let arrZetaP = map Fin arrP;
                        arrZETA = map (\<lambda>p. fneg (ppf nm (fdiv p (Fin 2)))) arrZetaP
                    in Inr (unwrap1 arrZetaP, unwrap1 arrZETA)))
         else (case getGumbel nm (np_mean_f vecMaxRandD) (np_var_f vecMaxRandD) arrMaxD of
                 Inl e \<Rightarrow> Inl e
               | Inr (arrZetaP, arrZETA) \<Rightarrow> Inr (unwrap1 arrZetaP, unwrap1 arrZETA)))"

text \<open>The i-th entry of a result that is a scalar or an array.\<close>

fun np_nth :: "'a np_value \<Rightarrow> nat \<Rightarrow> 'a" where
  "np_nth (Scalar x) i = x"
| "np_nth (Array xs) i = xs ! i"

subsection \<open>The rank of an observed maximum, as the specification words it\<close>

text \<open>
  For the sorted distinct null maxima s (ranks 1 to \<open>length s\<close>): the rank of d is 0 below
  the minimum, \<open>length s\<close> from the maximum on, and between two neighbours \<open>s ! j\<close> and
  \<open>s ! (j + 1)\<close> the linear interpolation of their ranks \<open>j + 1\<close> and \<open>j + 2\<close>.
\<close>

definition spec_rank :: "real list \<Rightarrow> fval \<Rightarrow> real" where
  "spec_rank s d =
     (case d of
        NaN \<Rightarrow> 0
      | NInf \<Rightarrow> 0
      | PInf \<Rightarrow> real (length s)
      | Fin x \<Rightarrow>
          if x < hd s then 0
          else if last s \<le> x then real (length s)
          else (let j = length (filter (\<lambda>a. a \<le> x) s) - 1
                in real j + 1 + (x - s ! j) / (s ! (j + 1) - s ! j)))"

subsection \<open>A concrete instance of the library functions\<close>

text \<open>
  The standard normal CDF as its power series, and \<open>norm.ppf\<close> as its inverse on (0, 1),
  with the values scipy returns at 0 and 1 and NaN outside [0, 1].
\<close>

definition std_normal_cdf :: "real \<Rightarrow> real" where
  "std_normal_cdf x =
     1 / 2 + (\<Sum>n. (- 1) ^ n * x ^ (2 * n + 1) / (fact n * 2 ^ n * real (2 * n + 1))) / sqrt (2 * pi)"

definition norm_ppf_exact :: "real \<Rightarrow> fval" where
  "norm_ppf_exact q =
     (if q = 0 then NInf
      else if q = 1 then PInf
      else if 0 < q \<and> q < 1 then Fin (THE x. std_normal_cdf x = q)
      else NaN)"

text \<open>
  Doubles: a value of the Gumbel CDF from \<open>1 - 2\<^sup>-\<^sup>5\<^sup>4\<close> on rounds to 1.0 (round to nearest,
  ties to even; the doubles next to 1.0 are \<open>1 - 2\<^sup>-\<^sup>5\<^sup>3\<close> and 1.0); other values are kept
  exact. The machine epsilon is \<open>2\<^sup>-\<^sup>5\<^sup>2\<close>.
\<close>

definition double_numerics :: numerics where
  "double_numerics =
     \<lparr> norm_ppf = norm_ppf_exact,
       cdf_round = (\<lambda>c. if 1 - 1 / 2 ^ 54 \<le> c then 1 else c),
       float_eps = 1 / 2 ^ 52 \<rparr>"

subsection \<open>getSpikeT\<close>

text \<open>
  The spikes of one trial, relative to its start:
  \<open>vecSpikeTimes[np.logical_and(vecSpikeTimes < dblStopT, vecSpikeTimes > dblStartT)] - dblStartT\<close>.
\<close>

definition trialSpikes :: "real list \<Rightarrow> real \<Rightarrow> real \<Rightarrow> real list" where
  "trialSpikes vecSpikeTimes dblUseMaxDur dblStartT =
     (let dblStopT = dblStartT + dblUseMaxDur
      in map (\<lambda>t. t - dblStartT) (filter (\<lambda>t. t < dblStopT \<and> t > dblStartT) vecSpikeTimes))"

text \<open>
  The loop over the trials writes each trial's spikes behind those of the trials before
  (the source writes them at \<open>intIdx\<close> into a buffer that it doubles when it is full, and
  cuts the buffer at \<open>intIdx\<close> after the loop). The result is sorted and put between the
  entries 0 and \<open>dblUseMaxDur\<close>.
\<close>

definition getSpikeT :: "real list \<Rightarrow> real list \<Rightarrow> real \<Rightarrow> real list" where
  "getSpikeT vecSpikeTimes vecEventTimes dblUseMaxDur =
     (let vecSpikesInTrial =
            foldl (\<lambda>buf dblStartT. buf @ trialSpikes vecSpikeTimes dblUseMaxDur dblStartT) [] vecEventTimes
      in [0] @ sort vecSpikesInTrial @ [dblUseMaxDur])"

subsection \<open>getTempOffsetOne\<close>

text \<open>
  One pass of the loop over \<open>vecNotUnique\<close>:
  \<^verbatim>\<open>
  indIdx = dblNotUnique == vecSpikesInTrial
  vecSpikesInTrial[indIdx] = vecSpikesInTrial[indIdx] + \
      dblUniqueOffset*(np.arange(sum(indIdx))-sum(indIdx)/2-1)
  \<close>
  The j-th entry equal to \<open>dblNotUnique\<close> (j from 0, k such entries) moves by
  \<open>eps * (j - k / 2 - 1)\<close>.
\<close>

fun addOffsets :: "real \<Rightarrow> real \<Rightarrow> nat \<Rightarrow> nat \<Rightarrow> real list \<Rightarrow> real list" where
  "addOffsets dblUniqueOffset dblNotUnique k j [] = []"
| "addOffsets dblUniqueOffset dblNotUnique k j (x # xs) =
     (if dblNotUnique = x
      then (x + dblUniqueOffset * (real j - real k / 2 - 1))
             # addOffsets dblUniqueOffset dblNotUnique k (Suc j) xs
      else x # addOffsets dblUniqueOffset dblNotUnique k j xs)"

definition offsetGroup :: "real \<Rightarrow> real list \<Rightarrow> real \<Rightarrow> real list" where
  "offsetGroup dblUniqueOffset vecSpikesInTrial dblNotUnique =
     addOffsets dblUniqueOffset dblNotUnique
       (length (filter (\<lambda>x. dblNotUnique = x) vecSpikesInTrial)) 0 vecSpikesInTrial"

text \<open>
  Lines 238-252: the values that occur more than once (\<open>np.diff(vecIdx) > 1\<close> on the
  indices of the first occurrences, the last value never flagged), and the array with
  each of their groups spread.
\<close>

definition notUnique :: "real list \<Rightarrow> real list" where
  "notUnique vecSpikesInTrial =
     (let vecIdx = snd (np_unique_index vecSpikesInTrial);
          indDuplicates = map (\<lambda>d. d > 1) (np_diff (map int vecIdx)) @ [False]
      in map (\<lambda>i. vecSpikesInTrial ! i) (mask_select vecIdx indDuplicates))"

definition uniqueSpikes :: "real \<Rightarrow> real list \<Rightarrow> real list" where
  "uniqueSpikes dblUniqueOffset vecSpikesInTrial =
     (let vecThisSpikeTimes = fst (np_unique_index vecSpikesInTrial);
          vecNotUnique = notUnique vecSpikesInTrial
      in if length vecNotUnique > 0
         then np_unique (foldl (offsetGroup dblUniqueOffset) vecSpikesInTrial vecNotUnique)
         else vecThisSpikeTimes)"

text \<open>The result is (vecThisDeviation, vecThisSpikeFracs, vecThisFracLinear, vecThisSpikeTimes).\<close>

definition getTempOffsetOne ::
  "numerics \<Rightarrow> real list \<Rightarrow> real list \<Rightarrow> real \<Rightarrow> real list \<times> real list \<times> real list \<times> real list" where
  "getTempOffsetOne nm vecSpikeTimes vecEventTimes dblUseMaxDur =
     (let vecSpikesInTrial = getSpikeT vecSpikeTimes vecEventTimes dblUseMaxDur;
          vecThisSpikeTimes = uniqueSpikes (float_eps nm) vecSpikesInTrial;
          vecThisSpikeFracs =
            np_linspace (1 / real (length vecThisSpikeTimes)) 1 (length vecThisSpikeTimes);
          vecThisFracLinear = map (\<lambda>t. t / dblUseMaxDur) vecThisSpikeTimes;
          vecThisDeviation0 = map (\<lambda>(f, l). f - l) (zip vecThisSpikeFracs vecThisFracLinear);
          vecThisDeviation = map (\<lambda>d. d - np_mean vecThisDeviation0) vecThisDeviation0
      in (vecThisDeviation, vecThisSpikeFracs, vecThisFracLinear, vecThisSpikeTimes))"

subsection \<open>getPseudoSpikeVectors\<close>

text \<open>\<open>findfirst\<close>: the index of the first True, or None.\<close>

definition findfirst :: "bool list \<Rightarrow> nat option" where
  "findfirst indArray =
     (if True \<in> set indArray then Some (length (takeWhile Not indArray)) else None)"

text \<open>
  \<open>vecUseSamples\<close> is an array of sample indices, or \<open>np.empty(0)\<close>, which is an array of
  floats: numpy refuses it as an index (IndexError: arrays used as indices must be of
  integer (or boolean) type), also when it is empty.
\<close>

datatype index_array = FloatEmpty | IntIdx "nat list"

record stitch_state =
  cellPseudoSpikeT :: "real list list"
  vecPseudoEventT :: "real list"
  dblPseudoEventT :: real
  intLastUsedSample :: nat
  intFirstSample :: "nat option"
  dblPseudoT0 :: real

definition stitch_init :: stitch_state where
  "stitch_init =
     \<lparr> cellPseudoSpikeT = [], vecPseudoEventT = [], dblPseudoEventT = 0,
       intLastUsedSample = 0, intFirstSample = None, dblPseudoT0 = 0 \<rparr>"

text \<open>Lines 319-334: the eligible samples of the trial at \<open>dblEventT\<close>.\<close>

definition eligibleSamples :: "real list \<Rightarrow> real \<Rightarrow> real \<Rightarrow> index_array" where
  "eligibleSamples vecSpikeTimes dblWindowDur dblEventT =
     (let intSamples = length vecSpikeTimes;
          intStartSample0 = findfirst (map (\<lambda>t. t \<ge> dblEventT) vecSpikeTimes);
          intEndSample0 = findfirst (map (\<lambda>t. t > dblEventT + dblWindowDur) vecSpikeTimes);
          boolSwapped = (case (intStartSample0, intEndSample0) of
                           (Some a, Some b) \<Rightarrow> a > b | _ \<Rightarrow> False);
          intStartSample = (if boolSwapped then None else intStartSample0);
          intEndSample1 = (if boolSwapped then None else intEndSample0);
          intEndSample = (if intEndSample1 = None then intStartSample else intEndSample1)
      in case (intStartSample, intEndSample) of
           (Some a, Some b) \<Rightarrow> IntIdx (filter (\<lambda>i. i < intSamples) [a..<b + 1])
         | _ \<Rightarrow> FloatEmpty)"

text \<open>Lines 337-341: the first and the last trial take the samples before and after.\<close>

definition edgeSamples :: "nat \<Rightarrow> nat \<Rightarrow> bool \<Rightarrow> nat \<Rightarrow> index_array \<Rightarrow> index_array" where
  "edgeSamples intSamples intTrials boolDiscardEdges intTrial vecUseSamples =
     (case vecUseSamples of
        FloatEmpty \<Rightarrow> FloatEmpty
      | IntIdx us \<Rightarrow>
          if length us > 0
          then (if intTrial = 0 \<and> \<not> boolDiscardEdges then IntIdx [0..<last us + 1]
                else if int intTrial = int intTrials - 1 \<and> \<not> boolDiscardEdges
                     then IntIdx [hd us..<intSamples]
                     else IntIdx us)
          else IntIdx us)"

text \<open>Lines 343-372: the rest of the body of the loop, for trial \<open>intTrial\<close>.\<close>

definition stitchTrial ::
  "real list \<Rightarrow> real list \<Rightarrow> real \<Rightarrow> bool \<Rightarrow> stitch_state \<Rightarrow> nat \<Rightarrow> error + stitch_state" where
  "stitchTrial vecSpikeTimes vecEventTimes dblWindowDur boolDiscardEdges st intTrial =
     (let dblEventT = vecEventTimes ! intTrial;
          vecUseSamples0 =
            edgeSamples (length vecSpikeTimes) (length vecEventTimes) boolDiscardEdges intTrial
              (eligibleSamples vecSpikeTimes dblWindowDur dblEventT)
      in case vecUseSamples0 of
           FloatEmpty \<Rightarrow> Inl IndexError
         | IntIdx us0 \<Rightarrow>
             (let indOverlap = map (\<lambda>i. i \<le> intLastUsedSample st) us0;
                  boolOverlap = (intTrial > 0 \<and>
                                 dblWindowDur > dblEventT - vecEventTimes ! (intTrial - 1));
                  vecUseSamples = (if boolOverlap then mask_select us0 (map Not indOverlap) else us0);
                  vecAddT = map (\<lambda>i. vecSpikeTimes ! i) vecUseSamples;
                  dblPseudoEventT' =
                    (if intTrial = 0 then 0
                     else if boolOverlap
                          then dblPseudoEventT st + dblEventT - vecEventTimes ! (intTrial - 1)
                          else dblPseudoEventT st + dblWindowDur);
                  vecLocalPseudoT =
                    (if length vecUseSamples = 0 then []
                     else map (\<lambda>t. t - dblEventT + dblPseudoEventT') vecAddT);
                  boolFirst = (intFirstSample st = None \<and> length vecUseSamples > 0)
              in Inr \<lparr> cellPseudoSpikeT = cellPseudoSpikeT st @ [vecLocalPseudoT],
                       vecPseudoEventT = vecPseudoEventT st @ [dblPseudoEventT'],
                       dblPseudoEventT = dblPseudoEventT',
                       intLastUsedSample =
                         (if length vecUseSamples = 0 then intLastUsedSample st
                          else last vecUseSamples),
                       intFirstSample =
                         (if boolFirst then Some (hd vecUseSamples) else intFirstSample st),
                       dblPseudoT0 = (if boolFirst then dblPseudoEventT' else dblPseudoT0 st) \<rparr>))"

text \<open>The loop \<open>for intTrial, dblEventT in enumerate(vecEventTimes)\<close>; an exception ends it.\<close>

fun stitchLoop ::
  "real list \<Rightarrow> real list \<Rightarrow> real \<Rightarrow> bool \<Rightarrow> stitch_state \<Rightarrow> nat list \<Rightarrow> error + stitch_state" where
  "stitchLoop vecSpikeTimes vecEventTimes dblWindowDur boolDiscardEdges st [] = Inr st"
| "stitchLoop vecSpikeTimes vecEventTimes dblWindowDur boolDiscardEdges st (intTrial # rest) =
     (case stitchTrial vecSpikeTimes vecEventTimes dblWindowDur boolDiscardEdges st intTrial of
        Inl e \<Rightarrow> Inl e
      | Inr st' \<Rightarrow> stitchLoop vecSpikeTimes vecEventTimes dblWindowDur boolDiscardEdges st' rest)"

text \<open>Lines 375-380: the spikes before the first used sample.\<close>

definition addBeginning :: "real list \<Rightarrow> bool \<Rightarrow> stitch_state \<Rightarrow> real list list" where
  "addBeginning vecSpikeTimes boolDiscardEdges st =
     (case intFirstSample st of
        None \<Rightarrow> []
      | Some f \<Rightarrow>
          if \<not> boolDiscardEdges \<and> f > 0
          then (let dblStepBegin = vecSpikeTimes ! f - vecSpikeTimes ! (f - 1);
                    vecSampAddBeginning = [0..<f];
                    vecBeg = map (\<lambda>i. vecSpikeTimes ! i) vecSampAddBeginning;
                    dblPtp = Max (set vecBeg) - Min (set vecBeg)
                in [map (\<lambda>t. t - vecSpikeTimes ! (vecSampAddBeginning ! 0) + dblPseudoT0 st
                               - dblStepBegin - dblPtp) vecBeg])
          else [])"

text \<open>Lines 383-388: the spikes after the window of the last event.\<close>

definition addEnd :: "real list \<Rightarrow> real list \<Rightarrow> real \<Rightarrow> bool \<Rightarrow> stitch_state \<Rightarrow> real list list" where
  "addEnd vecSpikeTimes vecEventTimes dblWindowDur boolDiscardEdges st =
     (let intTn = length vecSpikeTimes;
          dblEventT = last vecEventTimes
      in case findfirst (map (\<lambda>t. t > last vecEventTimes + dblWindowDur) vecSpikeTimes) of
           None \<Rightarrow> []
         | Some l \<Rightarrow>
             if \<not> boolDiscardEdges \<and> int intTn - 1 > int l
             then [map (\<lambda>i. vecSpikeTimes ! i - dblEventT + dblPseudoEventT st + dblWindowDur)
                     [l..<intTn]]
             else [])"

text \<open>
  The result is (vecPseudoSpikeTimes, vecPseudoEventT). Without events,
  \<open>vecEventTimes[-1]\<close> is out of bounds. \<open>dblMedianDur\<close> is computed and never used.
\<close>

definition getPseudoSpikeVectors ::
  "real list \<Rightarrow> real list \<Rightarrow> real \<Rightarrow> bool \<Rightarrow> error + (real list \<times> real list)" where
  "getPseudoSpikeVectors vecSpikeTimes0 vecEventTimes0 dblWindowDur boolDiscardEdges =
     (let vecSpikeTimes = sort vecSpikeTimes0;
          vecEventTimes = sort vecEventTimes0
      in case stitchLoop vecSpikeTimes vecEventTimes dblWindowDur boolDiscardEdges stitch_init
                [0..<length vecEventTimes] of
           Inl e \<Rightarrow> Inl e
         | Inr st \<Rightarrow>
             if vecEventTimes = [] then Inl IndexError
             else (let cell = cellPseudoSpikeT st
                          @ addBeginning vecSpikeTimes boolDiscardEdges st
                          @ addEnd vecSpikeTimes vecEventTimes dblWindowDur boolDiscardEdges st
                   in Inr (sort (concat cell), vecPseudoEventT st)))"

subsection \<open>calcZetaOne\<close>

text \<open>The dictionary \<open>dZETA\<close>; None is Python's None.\<close>

record dZETA =
  vecSpikeT :: "real list option"
  vecRealDeviation :: "real list option"
  vecRealFrac :: "real list option"
  vecRealFracLinear :: "real list option"
  cellRandTime :: "real list list option"
  cellRandDeviation :: "real list list option"
  dblZetaP :: "fval np_value"
  dblZETA :: "fval np_value"
  intZETAIdx :: "nat option"

text \<open>Lines 19-38: the pre-allocated output.\<close>

definition dZETA_default :: dZETA where
  "dZETA_default =
     \<lparr> vecSpikeT = None, vecRealDeviation = None, vecRealFrac = None,
       vecRealFracLinear = None, cellRandTime = None, cellRandDeviation = None,
       dblZetaP = Scalar (Fin 1), dblZETA = Scalar (Fin 0), intZETAIdx = None \<rparr>"

text \<open>
  The state of numpy's random generator is the stream of the permutations it will return;
  \<open>np.random.permutation\<close> returns the next one and advances the stream.
\<close>

type_synonym rng = "nat \<Rightarrow> nat list"

definition np_random_permutation :: "nat \<Rightarrow> rng \<Rightarrow> nat list \<times> rng" where
  "np_random_permutation n g = (g 0, \<lambda>k. g (Suc k))"

text \<open>
  Lines 103-104: the columns of \<open>matJitterPerTrial\<close>, one draw of the generator for each
  resampling.
\<close>

fun drawJitters :: "real list \<Rightarrow> nat \<Rightarrow> rng \<Rightarrow> real list list \<times> rng" where
  "drawJitters vecJitterPerTrial 0 g = ([], g)"
| "drawJitters vecJitterPerTrial (Suc n) g =
     (let (vecPerm, g') = np_random_permutation (length vecJitterPerTrial) g;
          (matRest, g'') = drawJitters vecJitterPerTrial n g'
      in (map (\<lambda>j. vecJitterPerTrial ! j) vecPerm # matRest, g''))"

text \<open>
  Lines 108-116: one resampling, for one column of jitters. The result is
  (vecThisSpikeTimes, the centred deviation, its largest absolute value).
\<close>

definition resampleOne ::
  "numerics \<Rightarrow> real list \<Rightarrow> real list \<Rightarrow> real \<Rightarrow> real list \<Rightarrow> error + (real list \<times> real list \<times> real)" where
  "resampleOne nm vecPseudoSpikeTimes vecStartOnly dblUseMaxDur vecJitter =
     (let vecStimUseOnTime = map (\<lambda>(s, j). s + j) (zip vecStartOnly vecJitter);
          (vecRandDiff, vecThisSpikeFracs, vecThisFracLinear, vecThisSpikeTimes) =
             getTempOffsetOne nm vecPseudoSpikeTimes vecStimUseOnTime dblUseMaxDur;
          vecRandDeviation = map (\<lambda>d. d - np_mean vecRandDiff) vecRandDiff
      in case np_max (map abs vecRandDeviation) of
           Inl e \<Rightarrow> Inl e
         | Inr dblMaxRandD \<Rightarrow> Inr (vecThisSpikeTimes, vecRandDeviation, dblMaxRandD))"

text \<open>
  Lines 71-132, from the reduced spikes on. The generator is used by the first loop of the
  bootstraps only.
\<close>

definition zetaFromSpikes ::
  "numerics \<Rightarrow> real list \<Rightarrow> real list \<Rightarrow> real \<Rightarrow> nat \<Rightarrow> bool \<Rightarrow> real \<Rightarrow> bool \<Rightarrow> rng
     \<Rightarrow> (error + dZETA) \<times> rng" where
  "zetaFromSpikes nm vecSpikeTimes vecEventT dblUseMaxDur intResampNum boolDirectQuantile
      dblJitterSize boolStitch g =
     (case (if boolStitch
            then getPseudoSpikeVectors vecSpikeTimes vecEventT dblUseMaxDur False
            else Inr (vecSpikeTimes, vecEventT)) of
        Inl e \<Rightarrow> (Inl e, g)
      | Inr (vecPseudoSpikeTimes, vecPseudoEventT') \<Rightarrow>
          (let (vecRealDeviation0, vecRealFrac', vecRealFracLinear', vecSpikeT') =
                 getTempOffsetOne nm vecPseudoSpikeTimes vecPseudoEventT' dblUseMaxDur
           in if length vecRealDeviation0 < 3 then (Inr dZETA_default, g)
              else
                (let vecRealDeviation' =
                       map (\<lambda>d. d - np_mean vecRealDeviation0) vecRealDeviation0
                 in case np_argmax (map abs vecRealDeviation') of
                      Inl e \<Rightarrow> (Inl e, g)
                    | Inr intZETAIdx' \<Rightarrow>
                        (let dblMaxD = abs (vecRealDeviation' ! intZETAIdx');
                             vecStartOnly = vecPseudoEventT';
                             intTrials = length vecStartOnly;
                             vecJitterPerTrial =
                               map (\<lambda>x. dblJitterSize * x)
                                 (np_linspace (- dblUseMaxDur) dblUseMaxDur intTrials);
                             (matJitterPerTrial, g') =
                               drawJitters vecJitterPerTrial intResampNum g
                         in case mapE (resampleOne nm vecPseudoSpikeTimes vecStartOnly
                                         dblUseMaxDur) matJitterPerTrial of
                              Inl e \<Rightarrow> (Inl e, g')
                            | Inr cellRand \<Rightarrow>
                                (let vecMaxRandD = map (\<lambda>(t, d, m). m) cellRand
                                 in case getZetaP nm (Scalar (Fin dblMaxD)) vecMaxRandD
                                           boolDirectQuantile of
                                      Inl e \<Rightarrow> (Inl e, g')
                                    | Inr (dblZetaP', dblZETA') \<Rightarrow>
                                        (Inr \<lparr> vecSpikeT = Some vecSpikeT',
                                               vecRealDeviation = Some vecRealDeviation',
                                               vecRealFrac = Some vecRealFrac',
                                               vecRealFracLinear = Some vecRealFracLinear',
                                               cellRandTime = Some (map (\<lambda>(t, d, m). t) cellRand),
                                               cellRandDeviation =
                                                 Some (map (\<lambda>(t, d, m). d) cellRand),
                                               dblZetaP = dblZetaP',
                                               dblZETA = dblZETA',
                                               intZETAIdx = Some intZETAIdx' \<rparr>, g'))))))"

text \<open>
  \<open>calcZetaOne\<close>: the orientation of the events (lines 45-59), the reduction of the spikes
  (lines 61-64), the exit with the pre-allocated output when fewer than 3 spikes are left
  (lines 66-69), and the rest. \<open>boolParallel\<close> is not used by the source.
\<close>

definition calcZetaOne ::
  "numerics \<Rightarrow> real list \<Rightarrow> ndarray \<Rightarrow> real \<Rightarrow> nat \<Rightarrow> bool \<Rightarrow> real \<Rightarrow> bool \<Rightarrow> bool \<Rightarrow> rng
     \<Rightarrow> (error + dZETA) \<times> rng" where
  "calcZetaOne nm vecSpikeTimes arrEventTimes dblUseMaxDur intResampNum boolDirectQuantile
      dblJitterSize boolStitch boolParallel g =
     (case orientEventTimes arrEventTimes of
        Inl e \<Rightarrow> (Inl e, g)
      | Inr arrEventTimes' \<Rightarrow>
          (case firstColumn arrEventTimes' of
             Inl e \<Rightarrow> (Inl e, g)
           | Inr vecEventT \<Rightarrow>
               (case reduceSpikes vecSpikeTimes vecEventT dblUseMaxDur dblJitterSize of
                  Inl e \<Rightarrow> (Inl e, g)
                | Inr vecSpikeTimes' \<Rightarrow>
                    if length vecSpikeTimes' < 3 then (Inr dZETA_default, g)
                    else zetaFromSpikes nm vecSpikeTimes' vecEventT dblUseMaxDur intResampNum
                           boolDirectQuantile dblJitterSize boolStitch g)))"

subsection \<open>The invariant of the stitching loop\<close>



subsection \<open>The Gumbel parameters, as the specification words them\<close>

text \<open>
  The moment-matched scale \<open>beta = sqrt (6 * var) / pi\<close> and mode
  \<open>mu = mean - beta * EulerMascheroniConstant\<close>, for a finite mean and variance.
\<close>

definition spec_beta :: "real \<Rightarrow> real" where
  "spec_beta dblV = sqrt (6 * dblV) / pi"

definition spec_mode :: "real \<Rightarrow> real \<Rightarrow> real" where
  "spec_mode dblE dblV = dblE - spec_beta dblV * 0.5772156649015328606065120900824"

subsection \<open>The onsets and the reduced spikes of a call of calcZetaOne\<close>



subsection \<open>The groups of identical spike positions\<close>




section \<open>Properties\<close>

subsection \<open>Reductions\<close>

lemma fold_min_Min: "fold min xs (x::real) = Min (set (x # xs))"
  by (simp only: Min.set_eq_fold)

lemma fold_max_Max: "fold max xs (x::real) = Max (set (x # xs))"
  by (simp only: Max.set_eq_fold)

lemma np_min_Min: "xs \<noteq> [] \<Longrightarrow> np_min xs = Inr (Min (set xs))"
  by (cases xs) (simp_all add: fold_min_Min del: set_simps)

lemma py_max_Max: "xs \<noteq> [] \<Longrightarrow> py_max xs = Inr (Max (set xs))"
  by (cases xs) (simp_all add: fold_max_Max del: set_simps)

subsection \<open>The reduce-spikes step keeps the spikes strictly inside the window\<close>

text \<open>
  C8 (as amended). After the reduce-spikes step of \<open>calcZetaOne\<close>, for non-empty spike and
  event arrays, the retained spikes are exactly the input spikes lying in the open interval
  (start, stop), where start is the larger of the first spike time and the earliest event
  time minus \<open>5 * dblUseMaxDur * dblJitterSize\<close>, and stop is the latest event time plus
  \<open>5 * dblUseMaxDur * dblJitterSize\<close>. The source compares with \<open>>\<close> and \<open><\<close>, so a spike at
  start or at stop is dropped.
\<close>

theorem reduceSpikes_open_interval:
  assumes "vecSpikeTimes \<noteq> []" and "vecEventT \<noteq> []"
  shows "\<exists>ys. reduceSpikes vecSpikeTimes vecEventT dblUseMaxDur dblJitterSize = Inr ys \<and>
           set ys = {t \<in> set vecSpikeTimes.
                       max (hd vecSpikeTimes) (Min (set vecEventT) - 5 * dblUseMaxDur * dblJitterSize) < t \<and>
                       t < Max (set vecEventT) + 5 * dblUseMaxDur * dblJitterSize}"
proof -
  obtain s ss where sp: "vecSpikeTimes = s # ss"
    using assms(1) by (cases vecSpikeTimes) auto
  show ?thesis
    unfolding reduceSpikes_def np_min_Min [OF assms(2)] py_max_Max [OF assms(2)] sp
    by (auto simp: Let_def mult_ac)
qed

theorem reduceSpikes_open_interval_witness:
  "[1, 2, 3, 4 :: real] \<noteq> [] \<and> [2 :: real] \<noteq> [] \<and>
   (\<exists>ys. reduceSpikes [1, 2, 3, 4] [2] 1 1 = Inr ys \<and>
       set ys = {t \<in> set [1, 2, 3, 4].
                   max (hd [1, 2, 3, 4]) (Min (set [2]) - 5 * 1 * 1) < t \<and> t < Max (set [2]) + 5 * 1 * 1})"
  using reduceSpikes_open_interval [of "[1, 2, 3, 4]" "[2]" 1 1] by simp

text \<open>
  The claim as stated (closed interval) fails: with spikes 1, 2, 3, 4, one event at 2 and
  \<open>dblUseMaxDur = dblJitterSize = 1\<close>, start is 1 and stop is 7; the spike at 1 lies in
  [start, stop] and is not retained.
\<close>

theorem reduceSpikes_closed_counterexample:
  "reduceSpikes [1, 2, 3, 4] [2] 1 1 = Inr [2, 3, 4] \<and>
   (1::real) \<in> set [1, 2, 3, 4] \<and>
   max (hd [1, 2, 3, 4]) (Min (set [2]) - 5 * 1 * 1) \<le> (1::real) \<and>
   (1::real) \<le> Max (set [2]) + 5 * 1 * 1 \<and>
   (1::real) \<notin> set [2, 3, 4]"
  by (simp add: reduceSpikes_def)

subsection \<open>getZetaP, direct-quantile mode\<close>

lemma np_unique_sorted_list: "np_unique xs = sorted_list_of_set (set xs)"
  by (simp add: np_unique_def sorted_list_of_set_sort_remdups)

lemma np_unique_props:
  "sorted_wrt (<) (np_unique xs)" "set (np_unique xs) = set xs"
  "length (np_unique xs) = card (set xs)" "(np_unique xs = []) = (xs = [])"
  unfolding np_unique_sorted_list
     apply (simp add: strict_sorted_iff)
    apply simp
   apply simp
  apply (metis List.finite_set set_empty sorted_list_of_set.set_sorted_key_list_of_set)
  done

lemma np_max_Max: "xs \<noteq> [] \<Longrightarrow> np_max xs = Inr (Max (set xs))"
  by (cases xs) (simp_all add: fold_max_Max del: set_simps)

lemma strict_sorted_Min_hd: "sorted_wrt (<) (xs::real list) \<Longrightarrow> xs \<noteq> [] \<Longrightarrow> Min (set xs) = hd xs"
  by (cases xs) (auto intro!: Min_eqI)

lemma strict_sorted_Max_last: "sorted_wrt (<) (xs::real list) \<Longrightarrow> xs \<noteq> [] \<Longrightarrow> Max (set xs) = last xs"
  by (induction xs) (auto simp: max_def dest: last_in_set intro: less_imp_le)

lemma ranks_Suc:
  "map (\<lambda>i. real i + c) [0..<Suc n] = c # map (\<lambda>i. real i + (c + 1)) [0..<n]"
proof -
  have "[0..<Suc n] = 0 # map Suc [0..<n]"
    by (simp add: upt_conv_Cons map_Suc_upt del: upt_Suc)
  then show ?thesis
    by (simp add: comp_def add.commute add.left_commute del: upt_Suc)
qed

lemma interp_last:
  "sorted_wrt (<) (a # xp) \<Longrightarrow> last (a # xp) \<le> x \<Longrightarrow>
   np_interp x (a # xp) (map (\<lambda>i. real i + c) [0..<Suc (length xp)]) = c + real (length xp)"
proof (induction xp arbitrary: a c)
  case Nil
  then show ?case by (simp add: ranks_Suc)
next
  case (Cons b xp)
  have "a < b" using Cons.prems by simp
  moreover have "b \<le> x"
  proof -
    have "b \<le> last (b # xp)" using Cons.prems(1) by (cases xp) (auto dest: last_in_set intro: less_imp_le)
    then show ?thesis using Cons.prems(2) by simp
  qed
  moreover have "np_interp x (b # xp) (map (\<lambda>i. real i + (c + 1)) [0..<Suc (length xp)]) = c + 1 + real (length xp)"
    using Cons.IH [of b "c + 1"] Cons.prems by simp
  ultimately show ?case
    by (simp add: ranks_Suc [of c] ranks_Suc [of "c + 1"] del: upt_Suc)
qed


lemma filter_le_none: "\<forall>y\<in>set ys. x < y \<Longrightarrow> filter (\<lambda>b. b \<le> (x::real)) ys = []"
  by (induction ys) auto

lemma interp_between:
  "sorted_wrt (<) (a # xp) \<Longrightarrow> a \<le> x \<Longrightarrow> x < last (a # xp) \<Longrightarrow>
   np_interp x (a # xp) (map (\<lambda>i. real i + c) [0..<Suc (length xp)]) =
     c + real (length (filter (\<lambda>b. b \<le> x) (a # xp)) - 1) +
       (x - (a # xp) ! (length (filter (\<lambda>b. b \<le> x) (a # xp)) - 1)) /
       ((a # xp) ! (length (filter (\<lambda>b. b \<le> x) (a # xp)) - 1 + 1) -
        (a # xp) ! (length (filter (\<lambda>b. b \<le> x) (a # xp)) - 1))"
proof (induction xp arbitrary: a c)
  case Nil
  then show ?case by simp
next
  case (Cons b xp)
  have ab: "a < b" and sb: "sorted_wrt (<) (b # xp)" and gt: "\<forall>y\<in>set xp. b < y"
    using Cons.prems(1) by auto
  show ?case
  proof (cases "x < b")
    case True
    then have "filter (\<lambda>y. y \<le> x) xp = []"
      using gt by (intro filter_le_none) auto
    then have f: "filter (\<lambda>y. y \<le> x) (a # b # xp) = [a]"
      using True Cons.prems(2) by simp
    show ?thesis
      unfolding f using True ab Cons.prems(2)
      by (simp add: ranks_Suc [of c] ranks_Suc [of "c + 1"] del: upt_Suc)
  next
    case False
    then have bx: "b \<le> x" by simp
    have lt: "x < last (b # xp)" using Cons.prems(3) by simp
    define j where "j = length (filter (\<lambda>y. y \<le> x) (b # xp)) - 1"
    have len: "length (filter (\<lambda>y. y \<le> x) (b # xp)) = Suc j"
      using bx by (simp add: j_def)
    have len2: "length (filter (\<lambda>y. y \<le> x) (a # b # xp)) = Suc (Suc j)"
      using len Cons.prems(2) by simp
    have ih: "np_interp x (b # xp) (map (\<lambda>i. real i + (c + 1)) [0..<Suc (length xp)]) =
        c + 1 + real j + (x - (b # xp) ! j) / ((b # xp) ! (j + 1) - (b # xp) ! j)"
      using Cons.IH [OF sb bx lt, of "c + 1"] unfolding len by simp
    have "np_interp x (a # b # xp) (map (\<lambda>i. real i + c) [0..<Suc (length (b # xp))]) =
        np_interp x (b # xp) (map (\<lambda>i. real i + (c + 1)) [0..<Suc (length xp)])"
      using False ab bx by (simp add: ranks_Suc [of c] ranks_Suc [of "c + 1"] del: upt_Suc)
    then show ?thesis
      unfolding len2 ih by simp
  qed
qed

lemma interp_below:
  "x \<le> a \<Longrightarrow> np_interp x (a # xp) (map (\<lambda>i. real i + c) [0..<Suc (length xp)]) = c"
  by (cases xp) (simp_all add: ranks_Suc [of c] ranks_Suc [of "c + 1"] del: upt_Suc)


lemma quantileRank_spec:
  assumes ne: "s \<noteq> []" and so: "sorted_wrt (<) s"
  shows "quantileRank s d = Inr (spec_rank s d)"
proof -
  obtain a xp where s: "s = a # xp" using ne by (cases s) auto
  have mn: "np_min s = Inr (hd s)" and mx: "np_max s = Inr (last s)"
    using np_min_Min [OF ne] np_max_Max [OF ne] strict_sorted_Min_hd [OF so ne]
      strict_sorted_Max_last [OF so ne] by simp_all
  have fp: "map (\<lambda>i. real i + 1) [0..<length s] = map (\<lambda>i. real i + 1) [0..<Suc (length xp)]"
    by (simp add: s)
  show ?thesis
  proof (cases d)
    case (Fin x)
    consider "x < hd s" | "hd s \<le> x" "x < last s" | "last s \<le> x" "hd s \<le> x" "x = last s"
      | "last s < x" "hd s \<le> x"
      by fastforce
    then show ?thesis
    proof cases
      case 1
      then show ?thesis by (simp add: quantileRank_def spec_rank_def mn Fin)
    next
      case 2
      have "np_interp x s (map (\<lambda>i. real i + 1) [0..<length s]) =
         real (length (filter (\<lambda>b. b \<le> x) s) - 1) + 1 +
           (x - s ! (length (filter (\<lambda>b. b \<le> x) s) - 1)) /
           (s ! (length (filter (\<lambda>b. b \<le> x) s) - 1 + 1) - s ! (length (filter (\<lambda>b. b \<le> x) s) - 1))"
        unfolding fp using interp_between [of a xp x 1] so 2 unfolding s by simp
      then show ?thesis
        using 2 by (simp add: quantileRank_def spec_rank_def mn mx Fin Let_def)
    next
      case 3
      have "np_interp x s (map (\<lambda>i. real i + 1) [0..<length s]) = real (length s)"
        unfolding fp using interp_last [of a xp x 1] so 3 unfolding s by simp
      then show ?thesis
        using 3 by (simp add: quantileRank_def spec_rank_def mn mx Fin)
    next
      case 4
      then show ?thesis by (simp add: quantileRank_def spec_rank_def mn mx Fin)
    qed
  qed (simp_all add: quantileRank_def spec_rank_def mn mx)
qed

lemma mapE_total: "(\<And>x. f x = Inr (g x)) \<Longrightarrow> mapE f xs = Inr (map g xs)"
  by (induction xs) simp_all

lemma np_nth_unwrap1: "i < length xs \<Longrightarrow> np_nth (unwrap1 xs) i = xs ! i"
  by (cases xs rule: unwrap1.cases) simp_all

lemma getZetaP_direct:
  assumes "vecMaxRandD \<noteq> []"
  shows "getZetaP nm arrMaxD vecMaxRandD True =
    Inr (unwrap1 (map (\<lambda>d. Fin (1 - spec_rank (np_unique vecMaxRandD) d / (1 + real (length (np_unique vecMaxRandD))))) (as_array arrMaxD)),
         unwrap1 (map (\<lambda>d. fneg (ppf nm (fdiv (Fin (1 - spec_rank (np_unique vecMaxRandD) d / (1 + real (length (np_unique vecMaxRandD))))) (Fin 2)))) (as_array arrMaxD)))"
proof -
  have "\<And>d. quantileP (np_unique vecMaxRandD) d =
      Inr (1 - spec_rank (np_unique vecMaxRandD) d / (1 + real (length (np_unique vecMaxRandD))))"
    using assms by (simp add: quantileP_def quantileRank_spec np_unique_props)
  then show ?thesis
    by (simp add: getZetaP_def Let_def mapE_total comp_def)
qed

text \<open>
  C5 (as amended). In direct-quantile mode, for every non-empty null-maxima vector and
  every observed maximum d (an entry of \<open>arrMaxD\<close>), \<open>getZetaP\<close> returns
  \<open>p = 1 - r / (M + 1)\<close>, where M is the number of distinct null maxima and r is the rank
  of d among the sorted distinct null maxima (\<open>spec_rank\<close>): the linear interpolation
  of d's position, 0 below the minimum, M from the maximum on and for plus infinity.
\<close>

theorem getZetaP_direct_quantile_rank:
  assumes "vecMaxRandD \<noteq> []"
  shows "\<exists>arrZetaP arrZETA.
     getZetaP nm arrMaxD vecMaxRandD True = Inr (arrZetaP, arrZETA) \<and>
     (\<forall>i < length (as_array arrMaxD).
        np_nth arrZetaP i =
          Fin (1 - spec_rank (sorted_list_of_set (set vecMaxRandD)) (as_array arrMaxD ! i)
                     / (real (card (set vecMaxRandD)) + 1)))"
  unfolding getZetaP_direct [OF assms]
  by (simp add: np_nth_unwrap1 np_unique_props np_unique_sorted_list [symmetric] add.commute)

theorem getZetaP_direct_quantile_rank_witness:
  "[1, 1, 3 :: real] \<noteq> [] \<and>
   (\<exists>arrZetaP arrZETA.
     getZetaP double_numerics (Scalar (Fin 2)) [1, 1, 3] True = Inr (arrZetaP, arrZETA) \<and>
     np_nth arrZetaP 0 = Fin (1 / 2))"
  using getZetaP_direct_quantile_rank [of "[1, 1, 3]" double_numerics "Scalar (Fin 2)"]
  by (simp add: spec_rank_def sorted_list_of_set_sort_remdups)

text \<open>
  The claim as stated counts the null maxima with their repetitions: for the null maxima
  1, 1 and the observed maximum 2 it gives \<open>1 - 2 / 3\<close>; the source removes the duplicate
  first and returns \<open>1 - 1 / 2\<close>.
\<close>

theorem getZetaP_count_counterexample:
  "getZetaP double_numerics (Scalar (Fin 2)) [1, 1] True =
     Inr (Scalar (Fin (1 / 2)), Scalar (fneg (norm_ppf_exact (1 / 4)))) \<and>
   (1 / 2 :: real) \<noteq> 1 - real (length [1, 1 :: real]) / (real (length [1, 1 :: real]) + 1)"
  by (simp add: getZetaP_def np_unique_def quantileP_def quantileRank_def double_numerics_def)


lemma interp_bounds:
  "sorted_wrt (<) (a # xp) \<Longrightarrow>
   c \<le> np_interp x (a # xp) (map (\<lambda>i. real i + c) [0..<Suc (length xp)]) \<and>
   np_interp x (a # xp) (map (\<lambda>i. real i + c) [0..<Suc (length xp)]) \<le> c + real (length xp)"
proof (induction xp arbitrary: a c)
  case Nil
  then show ?case by (simp add: ranks_Suc)
next
  case (Cons b xp)
  have ab: "a < b" and sb: "sorted_wrt (<) (b # xp)"
    using Cons.prems by auto
  note ih = Cons.IH [OF sb, of "c + 1"]
  show ?case
  proof (cases "x \<le> a")
    case True
    then show ?thesis by (simp add: ranks_Suc [of c] ranks_Suc [of "c + 1"] del: upt_Suc)
  next
    case False
    show ?thesis
    proof (cases "x < b")
      case True
      have "0 \<le> (x - a) / (b - a)" "(x - a) / (b - a) \<le> 1"
        using True False ab by simp_all
      moreover have "(0::real) \<le> real (length xp)" by simp
      ultimately have "0 \<le> (x - a) / (b - a)" "(x - a) / (b - a) \<le> 1 + real (length xp)"
        by linarith+
      then show ?thesis
        using True False by (simp add: ranks_Suc [of c] ranks_Suc [of "c + 1"] del: upt_Suc)
    next
      case nb: False
      then show ?thesis
        using False ih by (simp add: ranks_Suc [of c] ranks_Suc [of "c + 1"] del: upt_Suc)
    qed
  qed
qed




subsection \<open>The deviation curve and the results of calcZetaOne\<close>

lemma length_addOffsets: "length (addOffsets e v k j xs) = length xs"
  by (induction xs arbitrary: j) auto

lemma length_offsetGroup: "length (offsetGroup e xs v) = length xs"
  by (simp add: offsetGroup_def length_addOffsets)

lemma length_foldl_offsetGroup: "length (foldl (offsetGroup e) xs vs) = length xs"
  by (induction vs arbitrary: xs) (simp_all add: length_offsetGroup)

lemma getSpikeT_nonempty: "getSpikeT S E W \<noteq> []"
  by (simp add: getSpikeT_def Let_def)

lemma uniqueSpikes_nonempty: "xs \<noteq> [] \<Longrightarrow> uniqueSpikes e xs \<noteq> []"
proof -
  assume ne: "xs \<noteq> []"
  have "foldl (offsetGroup e) xs vs \<noteq> []" for vs
    using ne length_foldl_offsetGroup [of e xs vs] by (metis length_0_conv)
  then show ?thesis
    using ne by (simp add: uniqueSpikes_def Let_def np_unique_index_def np_unique_props)
qed

lemma length_np_linspace: "length (np_linspace a b n) = n"
  by (simp add: np_linspace_def)

lemma mean_centred:
  assumes "xs \<noteq> []"
  shows "np_mean (map (\<lambda>d. d - np_mean xs) xs) = 0"
proof -
  have "sum_list (map (\<lambda>d. d - c) xs) = sum_list xs - real (length xs) * c" for c
    by (induction xs) (simp_all add: algebra_simps)
  then show ?thesis
    using assms by (simp add: np_mean_def)
qed

lemma getTempOffsetOne_deviation:
  "\<exists>dev0. dev0 \<noteq> [] \<and> fst (getTempOffsetOne nm S E W) = map (\<lambda>d. d - np_mean dev0) dev0"
proof -
  let ?t = "uniqueSpikes (float_eps nm) (getSpikeT S E W)"
  let ?dev0 = "map (\<lambda>(f, l). f - l) (zip (np_linspace (1 / real (length ?t)) 1 (length ?t)) (map (\<lambda>t. t / W) ?t))"
  have "?t \<noteq> []" by (rule uniqueSpikes_nonempty [OF getSpikeT_nonempty])
  then have "length ?dev0 \<noteq> 0" by (simp add: length_np_linspace)
  then have "?dev0 \<noteq> []" by (metis length_0_conv)
  moreover have "fst (getTempOffsetOne nm S E W) = map (\<lambda>d. d - np_mean ?dev0) ?dev0"
    by (simp add: getTempOffsetOne_def Let_def)
  ultimately show ?thesis by blast
qed

lemma getTempOffsetOne_mean:
  "fst (getTempOffsetOne nm S E W) \<noteq> [] \<and> np_mean (fst (getTempOffsetOne nm S E W)) = 0"
  using getTempOffsetOne_deviation [of nm S E W] mean_centred by auto

lemma mapE_Inr_nth:
  "mapE f xs = Inr ys \<Longrightarrow> length ys = length xs \<and> (\<forall>i < length xs. f (xs ! i) = Inr (ys ! i))"
proof (induction xs arbitrary: ys)
  case Nil
  then show ?case by simp
next
  case (Cons x xs)
  then show ?case
    by (auto split: sum.splits simp: nth_Cons split: nat.splits)
qed

lemma mapE_Inr_set:
  "mapE f xs = Inr ys \<Longrightarrow> y \<in> set ys \<Longrightarrow> \<exists>x \<in> set xs. f x = Inr y"
  by (induction xs arbitrary: ys) (auto split: sum.splits)

text \<open>What a result of \<open>zetaFromSpikes\<close> is made of.\<close>

lemma zetaFromSpikes_Inr:
  assumes "zetaFromSpikes nm S E W N dq J st g = (Inr r, g')"
  shows "(r = dZETA_default \<and> g' = g) \<or>
    (\<exists>ps pe cellRand.
       (if st then getPseudoSpikeVectors S E W False else Inr (S, E)) = Inr (ps, pe) \<and>
       3 \<le> length (fst (getTempOffsetOne nm ps pe W)) \<and>
       mapE (resampleOne nm ps pe W)
         (fst (drawJitters (map (\<lambda>x. J * x) (np_linspace (- W) W (length pe))) N g)) = Inr cellRand \<and>
       g' = snd (drawJitters (map (\<lambda>x. J * x) (np_linspace (- W) W (length pe))) N g) \<and>
       vecRealDeviation r = Some (map (\<lambda>d. d - np_mean (fst (getTempOffsetOne nm ps pe W))) (fst (getTempOffsetOne nm ps pe W))) \<and>
       cellRandDeviation r = Some (map (\<lambda>(t, d, m). d) cellRand) \<and>
       cellRandTime r = Some (map (\<lambda>(t, d, m). t) cellRand))"
  using assms unfolding zetaFromSpikes_def
  by (auto simp: Let_def split: sum.splits prod.splits if_splits)


subsection \<open>A run of calcZetaOne\<close>

lemma ex_reduce: "reduceSpikes [0, 1/4, 1/2, 3/4] [0] 1 1 = Inr [1/4, 1/2, 3/4]"
  by (simp add: reduceSpikes_def)

lemma ex_getSpikeT: "getSpikeT [1/4, 1/2, 3/4] [0] 1 = [0, 1/4, 1/2, 3/4, 1]"
  by (simp add: getSpikeT_def trialSpikes_def)

lemma ex_getSpikeT2: "getSpikeT [1/4, 1/2, 3/4] [-1] 1 = [0, 1]"
  by (simp add: getSpikeT_def trialSpikes_def)

lemma ex_unique: "uniqueSpikes e [0, 1/4, 1/2, 3/4, 1] = [0, 1/4, 1/2, 3/4, 1]"
  by (simp add: uniqueSpikes_def notUnique_def np_unique_index_def np_unique_def first_index_def
      np_diff_def mask_select_def)

lemma ex_unique2: "uniqueSpikes e [0, 1] = [0, 1]"
  by (simp add: uniqueSpikes_def notUnique_def np_unique_index_def np_unique_def first_index_def
      np_diff_def mask_select_def)

lemma ex_temp: "getTempOffsetOne nm [1/4, 1/2, 3/4] [0] 1 =
   ([1/10, 1/20, 0, - (1/20), - (1/10)], [1/5, 2/5, 3/5, 4/5, 1], [0, 1/4, 1/2, 3/4, 1], [0, 1/4, 1/2, 3/4, 1])"
  by (simp add: getTempOffsetOne_def ex_getSpikeT ex_unique np_linspace_def np_mean_def Let_def)

lemma ex_temp2: "getTempOffsetOne nm [1/4, 1/2, 3/4] [-1] 1 = ([1/4, - (1/4)], [1/2, 1], [0, 1], [0, 1])"
  by (simp add: getTempOffsetOne_def ex_getSpikeT2 ex_unique2 np_linspace_def np_mean_def Let_def)

lemma ex_draw: "drawJitters [-1] (Suc 0) (\<lambda>k. [0]) = ([[-1]], (\<lambda>k. [0]))"
  by (simp add: np_random_permutation_def)

lemma ex_resample: "resampleOne nm [1/4, 1/2, 3/4] [0] 1 [-1] = Inr ([0, 1], [1/4, - (1/4)], 1/4)"
  by (simp add: resampleOne_def ex_temp2 np_mean_def)

lemma ex_getZetaP:
  "getZetaP nm (Scalar (Fin (1/10))) [1/4] True = Inr (Scalar (Fin 1), Scalar (fneg (ppf nm (Fin (1/2)))))"
  by (simp add: getZetaP_def np_unique_def quantileP_def quantileRank_def)

lemma ex_zeta:
  "zetaFromSpikes nm [1/4, 1/2, 3/4] [0] 1 (Suc 0) True 1 False (\<lambda>k. [0]) =
     (Inr \<lparr> vecSpikeT = Some [0, 1/4, 1/2, 3/4, 1],
            vecRealDeviation = Some [1/10, 1/20, 0, - (1/20), - (1/10)],
            vecRealFrac = Some [1/5, 2/5, 3/5, 4/5, 1],
            vecRealFracLinear = Some [0, 1/4, 1/2, 3/4, 1],
            cellRandTime = Some [[0, 1]],
            cellRandDeviation = Some [[1/4, - (1/4)]],
            dblZetaP = Scalar (Fin 1),
            dblZETA = Scalar (fneg (ppf nm (Fin (1/2)))),
            intZETAIdx = Some 0 \<rparr>, (\<lambda>k. [0]))"
  by (simp add: zetaFromSpikes_def ex_temp np_mean_def first_index_def np_linspace_def ex_draw
      ex_resample ex_getZetaP Let_def np_random_permutation_def)

lemma ex_calc:
  "calcZetaOne nm [0, 1/4, 1/2, 3/4] (Arr1D [0]) 1 1 True 1 False False (\<lambda>k. [0]) =
     (Inr \<lparr> vecSpikeT = Some [0, 1/4, 1/2, 3/4, 1],
            vecRealDeviation = Some [1/10, 1/20, 0, - (1/20), - (1/10)],
            vecRealFrac = Some [1/5, 2/5, 3/5, 4/5, 1],
            vecRealFracLinear = Some [0, 1/4, 1/2, 3/4, 1],
            cellRandTime = Some [[0, 1]],
            cellRandDeviation = Some [[1/4, - (1/4)]],
            dblZetaP = Scalar (Fin 1),
            dblZETA = Scalar (fneg (ppf nm (Fin (1/2)))),
            intZETAIdx = Some 0 \<rparr>, (\<lambda>k. [0]))"
  by (simp add: calcZetaOne_def ex_reduce ex_zeta)


lemma ex_reduce_few: "reduceSpikes [0, 1/4, 1/2] [0] 1 1 = Inr [1/4, 1/2]"
  by (simp add: reduceSpikes_def)

lemma ex_reduce_far: "reduceSpikes [0, 2, 3, 4] [0] 1 1 = Inr [2, 3, 4]"
  by (simp add: reduceSpikes_def)

lemma ex_temp_far: "getTempOffsetOne nm [2, 3, 4] [0] 1 = ([1/4, - (1/4)], [1/2, 1], [0, 1], [0, 1])"
proof -
  have "getSpikeT [2, 3, 4] [0] 1 = [0, 1]"
    by (simp add: getSpikeT_def trialSpikes_def)
  then show ?thesis
    by (simp add: getTempOffsetOne_def ex_unique2 np_linspace_def np_mean_def Let_def)
qed

lemma calcZetaOne_Inr:
  assumes "calcZetaOne nm S arr W N dq J st par g = (Inr r, g')"
  shows "r = dZETA_default \<or>
    (\<exists>ps pe cellRand.
       3 \<le> length (fst (getTempOffsetOne nm ps pe W)) \<and>
       mapE (resampleOne nm ps pe W)
         (fst (drawJitters (map (\<lambda>x. J * x) (np_linspace (- W) W (length pe))) N g)) = Inr cellRand \<and>
       vecRealDeviation r = Some (map (\<lambda>d. d - np_mean (fst (getTempOffsetOne nm ps pe W)))
                                     (fst (getTempOffsetOne nm ps pe W))) \<and>
       cellRandDeviation r = Some (map (\<lambda>(t, d, m). d) cellRand))"
proof -
  from assms consider "r = dZETA_default"
    | S' E where "zetaFromSpikes nm S' E W N dq J st g = (Inr r, g')"
    unfolding calcZetaOne_def by (auto split: sum.splits if_splits)
  then show ?thesis
  proof cases
    case 1
    then show ?thesis by simp
  next
    case 2
    from zetaFromSpikes_Inr [OF 2] show ?thesis by blast
  qed
qed

lemma resampleOne_Inr:
  assumes "resampleOne nm ps pe W vecJitter = Inr (t, d, mx)"
  shows "\<exists>E'. d = map (\<lambda>x. x - np_mean (fst (getTempOffsetOne nm ps E' W)))
                     (fst (getTempOffsetOne nm ps E' W))"
proof -
  obtain v0 fr li ti where
    t: "getTempOffsetOne nm ps (map (\<lambda>(s, j). s + j) (zip pe vecJitter)) W = (v0, fr, li, ti)"
    by (cases "getTempOffsetOne nm ps (map (\<lambda>(s, j). s + j) (zip pe vecJitter)) W") auto
  from assms have "d = map (\<lambda>x. x - np_mean v0) v0"
    unfolding resampleOne_def by (simp add: t Let_def split: sum.splits)
  then show ?thesis
    using t by (intro exI [of _ "map (\<lambda>(s, j). s + j) (zip pe vecJitter)"]) simp
qed

lemma calcZetaOne_deviations:
  assumes "calcZetaOne nm S arr W N dq J st par g = (Inr r, g')"
  shows "vecRealDeviation r = Some v \<Longrightarrow> v \<noteq> [] \<and> np_mean v = 0"
    and "cellRandDeviation r = Some c \<Longrightarrow> d \<in> set c \<Longrightarrow> d \<noteq> [] \<and> np_mean d = 0"
proof -
  note inv = calcZetaOne_Inr [OF assms]
  {
    assume v: "vecRealDeviation r = Some v"
    from inv v obtain ps pe where
      "v = map (\<lambda>d. d - np_mean (fst (getTempOffsetOne nm ps pe W))) (fst (getTempOffsetOne nm ps pe W))"
      by (auto simp: dZETA_default_def)
    then show "v \<noteq> [] \<and> np_mean v = 0"
      using getTempOffsetOne_mean [of nm ps pe W] mean_centred by auto
  }
  {
    assume c: "cellRandDeviation r = Some c" and d: "d \<in> set c"
    from inv c obtain ps pe cellRand jit where
      m: "mapE (resampleOne nm ps pe W) jit = Inr cellRand"
      and cc: "c = map (\<lambda>(t, d, m). d) cellRand"
      by (auto simp: dZETA_default_def)
    from d cc obtain t mx where "(t, d, mx) \<in> set cellRand" by auto
    from mapE_Inr_set [OF m this] obtain vecJitter where
      "resampleOne nm ps pe W vecJitter = Inr (t, d, mx)" by blast
    from resampleOne_Inr [OF this] obtain E' where
      "d = map (\<lambda>x. x - np_mean (fst (getTempOffsetOne nm ps E' W))) (fst (getTempOffsetOne nm ps E' W))"
      by blast
    then show "d \<noteq> [] \<and> np_mean d = 0"
      using getTempOffsetOne_mean [of nm ps E' W] mean_centred by auto
  }
qed

text \<open>
  C9. Every deviation curve has mean zero (in exact arithmetic): the deviation array
  returned by \<open>getTempOffsetOne\<close> (never empty, as it holds the entries for 0 and for
  \<open>dblUseMaxDur\<close>), the real curve \<open>vecRealDeviation\<close> of a result of \<open>calcZetaOne\<close> and
  every resampled curve in its \<open>cellRandDeviation\<close>.
\<close>

theorem deviation_mean_zero:
  assumes "0 < dblUseMaxDur"
  shows "fst (getTempOffsetOne nm vecSpikeTimes vecEventTimes dblUseMaxDur) \<noteq> [] \<and>
     np_mean (fst (getTempOffsetOne nm vecSpikeTimes vecEventTimes dblUseMaxDur)) = 0 \<and>
     (\<forall>r g'. calcZetaOne nm vecSpikeTimes' arrEventTimes dblUseMaxDur intResampNum
                boolDirectQuantile dblJitterSize boolStitch boolParallel g = (Inr r, g') \<longrightarrow>
        (\<forall>v. vecRealDeviation r = Some v \<longrightarrow> v \<noteq> [] \<and> np_mean v = 0) \<and>
        (\<forall>c. cellRandDeviation r = Some c \<longrightarrow> (\<forall>d \<in> set c. d \<noteq> [] \<and> np_mean d = 0)))"
  using getTempOffsetOne_mean [of nm vecSpikeTimes vecEventTimes dblUseMaxDur]
    calcZetaOne_deviations [of nm vecSpikeTimes' arrEventTimes dblUseMaxDur intResampNum
      boolDirectQuantile dblJitterSize boolStitch boolParallel g]
  by blast

theorem deviation_mean_zero_witness:
  "(0::real) < 1 \<and>
   fst (getTempOffsetOne double_numerics [1/4, 1/2, 3/4] [0] 1) = [1/10, 1/20, 0, - (1/20), - (1/10)] \<and>
   np_mean [1/10, 1/20, 0, - (1/20), - (1/10)] = 0 \<and>
   (\<exists>r g'. calcZetaOne double_numerics [0, 1/4, 1/2, 3/4] (Arr1D [0]) 1 1 True 1 False False (\<lambda>k. [0]) = (Inr r, g') \<and>
      vecRealDeviation r = Some [1/10, 1/20, 0, - (1/20), - (1/10)] \<and>
      cellRandDeviation r = Some [[1/4, - (1/4)]] \<and>
      np_mean [1/4, - (1/4)] = 0)"
proof -
  have pos: "(0::real) < 1" by simp
  note t = deviation_mean_zero [OF pos, where nm = double_numerics
      and vecSpikeTimes = "[1/4, 1/2, 3/4]" and vecEventTimes = "[0]"
      and vecSpikeTimes' = "[0, 1/4, 1/2, 3/4]" and arrEventTimes = "Arr1D [0]"
      and intResampNum = 1 and boolDirectQuantile = True and dblJitterSize = 1
      and boolStitch = False and boolParallel = False and g = "\<lambda>k. [0]"]
  have a: "np_mean [1/10, 1/20, 0, - (1/20), - (1/10)] = 0"
    using t by (simp add: ex_temp)
  from t have "\<forall>r g'. calcZetaOne double_numerics [0, 1/4, 1/2, 3/4] (Arr1D [0]) 1 1 True 1 False False (\<lambda>k. [0]) = (Inr r, g') \<longrightarrow>
        (\<forall>c. cellRandDeviation r = Some c \<longrightarrow> (\<forall>d \<in> set c. d \<noteq> [] \<and> np_mean d = 0))"
    by blast
  from this [unfolded ex_calc] have b: "np_mean [1/4, - (1/4)] = 0"
    by simp
  have c: "\<exists>r g'. calcZetaOne double_numerics [0, 1/4, 1/2, 3/4] (Arr1D [0]) 1 1 True 1 False False (\<lambda>k. [0]) = (Inr r, g') \<and>
      vecRealDeviation r = Some [1/10, 1/20, 0, - (1/20), - (1/10)] \<and>
      cellRandDeviation r = Some [[1/4, - (1/4)]]"
    unfolding ex_calc by simp
  show ?thesis
    using a b c by (simp add: ex_temp)
qed

text \<open>
  C4. Whenever \<open>calcZetaOne\<close> hits an insufficient-data condition (fewer than 3 spikes
  left by the reduce-spikes step, or fewer than 3 points in the real deviation curve),
  it returns the record with \<open>dblZetaP = 1.0\<close>, \<open>dblZETA = 0.0\<close> and all curve fields
  None, whatever \<open>intResampNum\<close> is, and the state of the random generator is the one it
  started with: no permutation was drawn, so no resampling was run.
\<close>

theorem calcZetaOne_insufficient_data:
  assumes "orientEventTimes arrEventTimes = Inr arrEventTimes'"
    and "firstColumn arrEventTimes' = Inr vecEventT"
    and "reduceSpikes vecSpikeTimes vecEventT dblUseMaxDur dblJitterSize = Inr vecSpikeTimes'"
    and "length vecSpikeTimes' < 3 \<or>
         (\<exists>ps pe. (if boolStitch
                    then getPseudoSpikeVectors vecSpikeTimes' vecEventT dblUseMaxDur False
                    else Inr (vecSpikeTimes', vecEventT)) = Inr (ps, pe) \<and>
                   length (fst (getTempOffsetOne nm ps pe dblUseMaxDur)) < 3)"
  shows "\<exists>r. calcZetaOne nm vecSpikeTimes arrEventTimes dblUseMaxDur intResampNum
                boolDirectQuantile dblJitterSize boolStitch boolParallel g = (Inr r, g) \<and>
             dblZetaP r = Scalar (Fin 1) \<and> dblZETA r = Scalar (Fin 0) \<and>
             vecSpikeT r = None \<and> vecRealDeviation r = None \<and> vecRealFrac r = None \<and>
             vecRealFracLinear r = None \<and> cellRandTime r = None \<and>
             cellRandDeviation r = None \<and> intZETAIdx r = None"
proof -
  have "calcZetaOne nm vecSpikeTimes arrEventTimes dblUseMaxDur intResampNum
          boolDirectQuantile dblJitterSize boolStitch boolParallel g = (Inr dZETA_default, g)"
  proof (cases "length vecSpikeTimes' < 3")
    case True
    then show ?thesis by (simp add: calcZetaOne_def assms(1-3))
  next
    case False
    with assms(4) obtain ps pe where
      st: "(if boolStitch then getPseudoSpikeVectors vecSpikeTimes' vecEventT dblUseMaxDur False
            else Inr (vecSpikeTimes', vecEventT)) = Inr (ps, pe)"
      and few: "length (fst (getTempOffsetOne nm ps pe dblUseMaxDur)) < 3"
      by blast
    obtain v0 fr li ti where t: "getTempOffsetOne nm ps pe dblUseMaxDur = (v0, fr, li, ti)"
      by (cases "getTempOffsetOne nm ps pe dblUseMaxDur") auto
    have "zetaFromSpikes nm vecSpikeTimes' vecEventT dblUseMaxDur intResampNum boolDirectQuantile
            dblJitterSize boolStitch g = (Inr dZETA_default, g)"
      unfolding zetaFromSpikes_def st using few by (simp add: t)
    then show ?thesis using False by (simp add: calcZetaOne_def assms(1-3))
  qed
  then show ?thesis by (simp add: dZETA_default_def)
qed

theorem calcZetaOne_insufficient_data_witness:
  "(\<exists>r. calcZetaOne double_numerics [0, 1/4, 1/2] (Arr1D [0]) 1 7 True 1 False False (\<lambda>k. [0]) =
          (Inr r, (\<lambda>k. [0])) \<and>
        dblZetaP r = Scalar (Fin 1) \<and> dblZETA r = Scalar (Fin 0) \<and>
        vecSpikeT r = None \<and> vecRealDeviation r = None \<and> vecRealFrac r = None \<and>
        vecRealFracLinear r = None \<and> cellRandTime r = None \<and>
        cellRandDeviation r = None \<and> intZETAIdx r = None) \<and>
   (\<exists>r. calcZetaOne double_numerics [0, 2, 3, 4] (Arr1D [0]) 1 7 True 1 False False (\<lambda>k. [0]) =
          (Inr r, (\<lambda>k. [0])) \<and>
        dblZetaP r = Scalar (Fin 1) \<and> dblZETA r = Scalar (Fin 0) \<and>
        vecSpikeT r = None \<and> vecRealDeviation r = None \<and> vecRealFrac r = None \<and>
        vecRealFracLinear r = None \<and> cellRandTime r = None \<and>
        cellRandDeviation r = None \<and> intZETAIdx r = None)"
proof -
  have o: "orientEventTimes (Arr1D [0]) = Inr (Arr2D 1 1 [[0]])" by simp
  have f: "firstColumn (Arr2D 1 1 [[0]]) = Inr [0]" by simp
  have h1: "length [1/4, 1/2 :: real] < 3 \<or>
         (\<exists>ps pe. (if False then getPseudoSpikeVectors [1/4, 1/2] [0] 1 False
                    else Inr ([1/4, 1/2], [0])) = Inr (ps, pe) \<and>
                   length (fst (getTempOffsetOne double_numerics ps pe 1)) < 3)"
    by simp
  have h2: "length [2, 3, 4 :: real] < 3 \<or>
         (\<exists>ps pe. (if False then getPseudoSpikeVectors [2, 3, 4] [0] 1 False
                    else Inr ([2, 3, 4], [0])) = Inr (ps, pe) \<and>
                   length (fst (getTempOffsetOne double_numerics ps pe 1)) < 3)"
    by (simp add: ex_temp_far)
  show ?thesis
    using calcZetaOne_insufficient_data [OF o f ex_reduce_few h1, where intResampNum = 7
        and boolDirectQuantile = True and boolParallel = False and g = "\<lambda>k. [0]"]
      calcZetaOne_insufficient_data [OF o f ex_reduce_far h2, where intResampNum = 7
        and boolDirectQuantile = True and boolParallel = False and g = "\<lambda>k. [0]"]
    by blast
qed

subsection \<open>getPseudoSpikeVectors: the pseudo event times\<close>
















subsection \<open>getGumbel: the approximation for large X\<close>

lemma sqrt6_bounds: "2 < sqrt 6" "sqrt 6 < 3"
  by (rule real_less_rsqrt, simp) (rule real_less_lsqrt, simp_all)

lemma euler_bounds: "1 / 2 < dblEulerMascheroni" "dblEulerMascheroni < 3 / 5"
  by (simp_all add: dblEulerMascheroni_def)

lemma exp_54: "(2::real) ^ 54 \<le> exp t" if "54 \<le> t" for t :: real
proof -
  have "(2::real) \<le> exp 1" using exp_ge_add_one_self [of "1::real"] by simp
  then have "(2::real) ^ 54 \<le> exp 1 ^ 54" by (intro power_mono) simp_all
  also have "\<dots> = exp (54 :: real)"
    using exp_of_nat_mult [of 54 "1::real"] by simp
  also have "\<dots> \<le> exp t" using that by simp
  finally show ?thesis .
qed

lemma cdf_saturates:
  fixes t :: real
  assumes "54 \<le> t"
  shows "1 - 1 / 2 ^ 54 \<le> exp (- exp (- t))"
proof -
  have "exp (- t) = 1 / exp t" by (simp add: exp_minus inverse_eq_divide)
  also have "\<dots> \<le> 1 / 2 ^ 54"
    using exp_54 [OF assms] by (intro divide_left_mono) simp_all
  finally have "1 - 1 / 2 ^ 54 \<le> 1 + - exp (- t)" by simp
  also have "\<dots> \<le> exp (- exp (- t))" by (rule exp_ge_add_one_self)
  finally show ?thesis .
qed

lemma cdf_not_saturated:
  fixes t :: real
  assumes "t \<le> 1"
  shows "exp (- exp (- t)) < 1 - 1 / 2 ^ 54"
proof -
  have "exp 1 \<le> (3::real)" by (rule exp_le)
  have "exp (- (1::real)) \<le> exp (- t)" using assms by simp
  moreover have "1 / 3 \<le> exp (- (1::real))"
    using \<open>exp 1 \<le> (3::real)\<close> by (simp add: exp_minus inverse_eq_divide field_simps)
  ultimately have u: "1 / 3 \<le> exp (- t)" by linarith
  have "1 + 1 / 3 \<le> exp (1 / 3 :: real)" by (rule exp_ge_add_one_self)
  also have "\<dots> \<le> exp (exp (- t))" using u by simp
  finally have "4 / 3 \<le> exp (exp (- t))" by simp
  then have "exp (- exp (- t)) \<le> 3 / 4"
    by (simp add: exp_minus [of "exp (- t)"] inverse_eq_divide field_simps)
  also have "\<dots> < 1 - 1 / 2 ^ 54" by simp
  finally show ?thesis .
qed

lemma fGumbelCDF_Fin:
  "B \<noteq> 0 \<Longrightarrow> fGumbelCDF (Fin M) (Fin B) (Fin x) = Fin (exp (- exp (- ((x - M) / B))))"
  by (simp add: fGumbelCDF_def)

lemma gumbelEntry_saturated:
  assumes "B \<noteq> 0" and "1 - 1 / 2 ^ 54 \<le> exp (- exp (- ((x - M) / B)))"
  shows "gumbelEntry double_numerics (Fin M) (Fin B) (Fin x) =
           (Fin (exp (M - x / B)), fneg (norm_ppf_exact (exp (M - x / B) / 2)))"
proof -
  have z: "norm_ppf_exact 0 = NInf" by (simp add: norm_ppf_exact_def)
  have r: "cdf_round double_numerics (exp (- exp (- ((x - M) / B)))) = 1"
    using assms(2) by (simp add: double_numerics_def)
  have n: "norm_ppf double_numerics = norm_ppf_exact" by (simp add: double_numerics_def)
  show ?thesis
    unfolding gumbelEntry_def fGumbelCDF_Fin [OF assms(1)]
    using assms(1) by (simp add: r n z Let_def)
qed

lemma gumbelEntry_exact:
  assumes "B \<noteq> 0" and "exp (- exp (- ((x - M) / B))) < 1 - 1 / 2 ^ 54"
  shows "gumbelEntry double_numerics (Fin M) (Fin B) (Fin x) =
           (Fin (1 - exp (- exp (- ((x - M) / B)))),
            fneg (norm_ppf_exact ((1 - exp (- exp (- ((x - M) / B)))) / 2)))"
proof -
  let ?c = "exp (- exp (- ((x - M) / B)))"
  have c: "0 < ?c" by simp
  have "1 - 1 / 2 ^ 54 < (1::real)" by simp
  with assms(2) have c1: "?c < 1" by linarith
  have r: "cdf_round double_numerics ?c = ?c"
    using assms(2) by (simp add: double_numerics_def)
  have n: "norm_ppf double_numerics = norm_ppf_exact" by (simp add: double_numerics_def)
  have "0 < (1 - ?c) / 2" using c1 by simp
  moreover have "(1 - ?c) / 2 < 1"
  proof -
    have "(- 1 :: real) < 0" by simp
    also have "0 < ?c" by simp
    finally show ?thesis by simp
  qed
  ultimately have "\<exists>y. norm_ppf_exact ((1 - ?c) / 2) = Fin y"
    unfolding norm_ppf_exact_def by auto
  then obtain y where y: "norm_ppf_exact ((1 - ?c) / 2) = Fin y" by blast
  show ?thesis
    unfolding gumbelEntry_def fGumbelCDF_Fin [OF assms(1)]
    by (simp add: r n y Let_def)
qed


lemma pi_ge_3: "3 \<le> pi"
  using sin_x_le_x [of "pi / 6"] by (simp add: sin_30)

lemma getGumbel_Fin:
  assumes "0 < dblV"
  shows "getGumbel nm (Fin dblE) (Fin dblV) arrX =
     Inr (map fst (map (gumbelEntry nm (Fin (spec_mode dblE dblV)) (Fin (spec_beta dblV))) arrX),
          map snd (map (gumbelEntry nm (Fin (spec_mode dblE dblV)) (Fin (spec_beta dblV))) arrX))"
proof -
  have p: "pi \<noteq> 0" by simp
  have "fdiv (fmul (Fin (sqrt 6)) (Fin (sqrt dblV))) (Fin pi) = Fin (spec_beta dblV)"
    using p by (simp add: spec_beta_def real_sqrt_mult)
  then show ?thesis
    using assms
    by (simp add: getGumbel_def Let_def spec_mode_def dblEulerMascheroni_def)
qed

lemma spec_beta_bounds:
  assumes "0 < dblV"
  shows "sqrt dblV / 2 < spec_beta dblV" and "spec_beta dblV < sqrt dblV"
proof -
  have s: "0 < sqrt dblV" using assms by simp
  have b: "spec_beta dblV = sqrt 6 * sqrt dblV / pi"
    by (simp add: spec_beta_def real_sqrt_mult)
  have "sqrt dblV * pi < sqrt dblV * 4" using s pi_less_4 by simp
  also have "\<dots> < sqrt dblV * (2 * sqrt 6)" using s sqrt6_bounds by simp
  finally show "sqrt dblV / 2 < spec_beta dblV"
    unfolding b using pi_gt_zero by (simp add: field_simps)
  have "sqrt 6 * sqrt dblV < 3 * sqrt dblV" using s sqrt6_bounds by simp
  also have "\<dots> \<le> pi * sqrt dblV" using s pi_ge_3 by simp
  finally show "spec_beta dblV < sqrt dblV"
    unfolding b using pi_gt_zero by (simp add: field_simps)
qed

lemma spec_mode_bounds:
  assumes "0 < dblV"
  shows "dblE - 3 / 5 * sqrt dblV < spec_mode dblE dblV" and "spec_mode dblE dblV < dblE"
proof -
  have "0 < sqrt dblV / 2" using assms by simp
  then have b: "0 < spec_beta dblV" "spec_beta dblV < sqrt dblV"
    using spec_beta_bounds [OF assms] by linarith+
  have "spec_beta dblV * 0.5772156649015328606065120900824 < sqrt dblV * (3 / 5)"
    using b assms by (intro mult_strict_mono) simp_all
  then show "dblE - 3 / 5 * sqrt dblV < spec_mode dblE dblV"
    by (simp add: spec_mode_def)
  have "0 < spec_beta dblV * 0.5772156649015328606065120900824"
    using b by simp
  then show "spec_mode dblE dblV < dblE" by (simp add: spec_mode_def)
qed

lemma sqrt_16: "sqrt 16 = 4"
  by (rule real_sqrt_unique) simp_all

lemma sqrt_100th: "sqrt (1 / 100) = 1 / 10"
  by (rule real_sqrt_unique) (simp_all add: power2_eq_square)


text \<open>
  C1. The claim: for an entry x whose z-score is not finite, \<open>getGumbel\<close> recomputes the
  p-value as \<open>exp ((mu - x) / beta)\<close>. The source computes \<open>exp (mu - x / beta)\<close>. At
  the mean 0.5, the variance 0.01 and x = 10 the Gumbel CDF rounds to 1.0, the z-score is
  infinite, and the recomputed p-value is \<open>exp (mu - 10 / beta)\<close>, which is not
  \<open>exp ((mu - 10) / beta)\<close>.
\<close>

theorem getGumbel_tail_grouping:
  "getGumbel double_numerics (Fin (1/2)) (Fin (1/100)) [Fin 10] =
     Inr ([Fin (exp (spec_mode (1/2) (1/100) - 10 / spec_beta (1/100)))],
          [fneg (norm_ppf_exact (exp (spec_mode (1/2) (1/100) - 10 / spec_beta (1/100)) / 2))]) \<and>
   0 < spec_beta (1/100) \<and>
   exp (spec_mode (1/2) (1/100) - 10 / spec_beta (1/100)) \<noteq>
     exp ((spec_mode (1/2) (1/100) - 10) / spec_beta (1/100))"
proof -
  let ?B = "spec_beta (1/100)"
  let ?M = "spec_mode (1/2) (1/100)"
  have v: "(0::real) < 1/100" by simp
  have B: "1/20 < ?B" "?B < 1/10"
    using spec_beta_bounds [OF v] by (simp_all add: sqrt_100th)
  have M: "11/25 < ?M" "?M < 1/2"
    using spec_mode_bounds [OF v, of "1/2"] by (simp_all add: sqrt_100th)
  have B0: "?B \<noteq> 0" "0 < ?B" using B by simp_all
  have "54 * ?B \<le> 10 - ?M" using B M by simp
  then have "54 \<le> (10 - ?M) / ?B"
    using B0 by (simp add: pos_le_divide_eq)
  then have sat: "1 - 1 / 2 ^ 54 \<le> exp (- exp (- ((10 - ?M) / ?B)))"
    by (rule cdf_saturates)
  have run: "getGumbel double_numerics (Fin (1/2)) (Fin (1/100)) [Fin 10] =
     Inr ([Fin (exp (?M - 10 / ?B))], [fneg (norm_ppf_exact (exp (?M - 10 / ?B) / 2))])"
    unfolding getGumbel_Fin [OF v] by (simp add: gumbelEntry_saturated [OF B0(1) sat])
  have "?M * ?B \<noteq> ?M * 1" using M B by simp
  then have "?M - 10 / ?B \<noteq> (?M - 10) / ?B"
    using B0 by (simp add: field_simps)
  then have "exp (?M - 10 / ?B) \<noteq> exp ((?M - 10) / ?B)" by simp
  with run B0 show ?thesis by simp
qed

lemma interp_mono:
  "sorted_wrt (<) (a # xp) \<Longrightarrow> x \<le> y \<Longrightarrow>
   np_interp x (a # xp) (map (\<lambda>i. real i + c) [0..<Suc (length xp)]) \<le>
   np_interp y (a # xp) (map (\<lambda>i. real i + c) [0..<Suc (length xp)])"
proof (induction xp arbitrary: a c)
  case Nil
  then show ?case by (simp add: ranks_Suc)
next
  case (Cons b xp)
  have ab: "a < b" and sb: "sorted_wrt (<) (b # xp)"
    using Cons.prems(1) by auto
  note ih = Cons.IH [OF sb Cons.prems(2), of "c + 1"]
  note bd = interp_bounds [OF sb, of "c + 1" y]
  have unf: "np_interp z (a # b # xp) (map (\<lambda>i. real i + c) [0..<Suc (length (b # xp))]) =
      (if z \<le> a then c
       else if z < b then (z - a) / (b - a) + c
       else np_interp z (b # xp) (map (\<lambda>i. real i + (c + 1)) [0..<Suc (length xp)]))" for z
    by (simp add: ranks_Suc [of c] ranks_Suc [of "c + 1"] del: upt_Suc)
  consider "x \<le> a" | "a < x" "x < b" "y < b" | "a < x" "x < b" "b \<le> y" | "b \<le> x"
    by fastforce
  then show ?case
  proof cases
    case 1
    have "c \<le> np_interp y (a # b # xp) (map (\<lambda>i. real i + c) [0..<Suc (length (b # xp))])"
      using interp_bounds [OF Cons.prems(1), of c y] by simp
    then show ?thesis unfolding unf [of x] using 1 by simp
  next
    case 2
    then have "(x - a) / (b - a) \<le> (y - a) / (b - a)"
      using ab Cons.prems(2) by (intro divide_right_mono) simp_all
    then show ?thesis unfolding unf using 2 Cons.prems(2) by simp
  next
    case 3
    have "(x - a) / (b - a) + c \<le> c + 1" using 3 ab by simp
    also have "c + 1 \<le> np_interp y (b # xp) (map (\<lambda>i. real i + (c + 1)) [0..<Suc (length xp)])"
      using bd by blast
    finally show ?thesis unfolding unf using 3 by (simp del: upt_Suc)
  next
    case 4
    then show ?thesis unfolding unf using ih Cons.prems(2) ab by simp
  qed
qed

lemma spec_rank_mono:
  assumes ne: "s \<noteq> []" and so: "sorted_wrt (<) s" and xy: "x \<le> y"
  shows "spec_rank s (Fin x) \<le> spec_rank s (Fin y)"
proof -
  obtain a xp where s: "s = a # xp" using ne by (cases s) auto
  have fp: "map (\<lambda>i. real i + 1) [0..<length s] = map (\<lambda>i. real i + 1) [0..<Suc (length xp)]"
    by (simp add: s)
  have mn: "np_min s = Inr (hd s)" and mx: "np_max s = Inr (last s)"
    using np_min_Min [OF ne] np_max_Max [OF ne] strict_sorted_Min_hd [OF so ne]
      strict_sorted_Max_last [OF so ne] by simp_all
  have hl: "hd s \<le> last s"
    using strict_sorted_Min_hd [OF so ne] strict_sorted_Max_last [OF so ne] ne
    by (metis List.finite_set Max_ge hd_in_set)
  let ?I = "\<lambda>z. np_interp z s (map (\<lambda>i. real i + 1) [0..<length s])"
  have r: "quantileRank s (Fin z) =
      Inr (if z < hd s then 0 else if last s < z then real (length s) else ?I z)" for z
    by (simp add: quantileRank_def mn mx)
  have b: "1 \<le> ?I z" "?I z \<le> real (length s)" for z
    unfolding fp using interp_bounds [of a xp 1 z] so unfolding s by simp_all
  have m: "?I x \<le> ?I y"
    unfolding fp using interp_mono [of a xp x y 1] so xy unfolding s by simp
  have "(if x < hd s then 0 else if last s < x then real (length s) else ?I x) \<le>
        (if y < hd s then 0 else if last s < y then real (length s) else ?I y)"
    using xy hl b [of x] b [of y] m by auto
  then show ?thesis
    using r [of x] r [of y] quantileRank_spec [OF ne so] by simp
qed

text \<open>In direct-quantile mode a larger finite observed maximum never gets a larger p-value.\<close>

lemma getZetaP_direct_monotone:
  assumes "vecMaxRandD \<noteq> []" and "x1 \<le> x2"
  shows "\<exists>p1 p2 z1 z2.
     getZetaP nm (Scalar (Fin x1)) vecMaxRandD True = Inr (Scalar (Fin p1), z1) \<and>
     getZetaP nm (Scalar (Fin x2)) vecMaxRandD True = Inr (Scalar (Fin p2), z2) \<and>
     p2 \<le> p1"
proof -
  let ?s = "np_unique vecMaxRandD"
  have ne: "?s \<noteq> []" and so: "sorted_wrt (<) ?s"
    using assms(1) by (simp_all add: np_unique_props)
  have "spec_rank ?s (Fin x1) / (1 + real (length ?s)) \<le> spec_rank ?s (Fin x2) / (1 + real (length ?s))"
    using spec_rank_mono [OF ne so assms(2)] by (intro divide_right_mono) simp_all
  then show ?thesis
    unfolding getZetaP_direct [OF assms(1)] by simp
qed

text \<open>So does the Gumbel p-value where the CDF is not rounded, for a positive scale.\<close>

lemma gumbel_p_monotone:
  assumes "0 < B" and "x1 \<le> x2"
    and "fGumbelCDF (Fin M) (Fin B) (Fin x1) = Fin c1"
    and "fGumbelCDF (Fin M) (Fin B) (Fin x2) = Fin c2"
  shows "1 - c2 \<le> 1 - c1"
proof -
  have "(x1 - M) / B \<le> (x2 - M) / B"
    using assms(1,2) by (intro divide_right_mono) simp_all
  then have le: "exp (- exp (- ((x1 - M) / B))) \<le> exp (- exp (- ((x2 - M) / B)))" by simp
  have "B \<noteq> 0" using assms(1) by simp
  then have "c1 = exp (- exp (- ((x1 - M) / B)))" "c2 = exp (- exp (- ((x2 - M) / B)))"
    using assms(3,4) by (simp_all add: fGumbelCDF_Fin)
  with le show ?thesis by simp
qed

text \<open>
  C6. The claim: for a fixed null distribution a larger observed maximum never yields a
  larger p-value, in both modes. In Gumbel mode the source breaks it where the tail
  approximation takes over: for the null maxima 296 and 304 the observed maximum 300 gets
  a p-value below 1, and the larger observed maximum 520, whose CDF rounds to 1.0, gets
  \<open>exp (mu - 520 / beta)\<close>, which is above 1.
\<close>

theorem getZetaP_gumbel_not_monotone:
  "getZetaP double_numerics (Array [Fin 300, Fin 520]) [296, 304] False =
     Inr (Array [Fin (1 - exp (- exp (- ((300 - spec_mode 300 16) / spec_beta 16)))),
                 Fin (exp (spec_mode 300 16 - 520 / spec_beta 16))],
          Array [fneg (norm_ppf_exact ((1 - exp (- exp (- ((300 - spec_mode 300 16) / spec_beta 16)))) / 2)),
                 fneg (norm_ppf_exact (exp (spec_mode 300 16 - 520 / spec_beta 16) / 2))]) \<and>
   (300::real) < 520 \<and>
   1 - exp (- exp (- ((300 - spec_mode 300 16) / spec_beta 16))) < 1 \<and>
   1 < exp (spec_mode 300 16 - 520 / spec_beta 16)"
proof -
  let ?B = "spec_beta 16"
  let ?M = "spec_mode 300 16"
  have v: "(0::real) < 16" by simp
  have B: "2 < ?B" "?B < 4"
    using spec_beta_bounds [OF v] by (simp_all add: sqrt_16)
  have M: "1488/5 < ?M" "?M < 300"
    using spec_mode_bounds [OF v, of 300] by (simp_all add: sqrt_16)
  have B0: "?B \<noteq> 0" "0 < ?B" using B by simp_all
  have u: "np_unique [296, 304] = [296, 304]" by (simp add: np_unique_def)
  have m: "np_mean_f [296, 304] = Fin 300" by (simp add: np_mean_f_def np_mean_def)
  have va: "np_var_f [296, 304] = Fin 16" by (simp add: np_var_f_def np_mean_def)
  have "300 - ?M = ?B * 0.5772156649015328606065120900824"
    by (simp add: spec_mode_def)
  also have "\<dots> \<le> ?B * 1" using B0 by (intro mult_left_mono) simp_all
  finally have "(300 - ?M) / ?B \<le> 1"
    using B0 by (simp add: pos_divide_le_eq)
  then have ns: "exp (- exp (- ((300 - ?M) / ?B))) < 1 - 1 / 2 ^ 54"
    by (rule cdf_not_saturated)
  have "54 * ?B \<le> 520 - ?M" using B M by simp
  then have "54 \<le> (520 - ?M) / ?B"
    using B0 by (simp add: pos_le_divide_eq)
  then have sat: "1 - 1 / 2 ^ 54 \<le> exp (- exp (- ((520 - ?M) / ?B)))"
    by (rule cdf_saturates)
  have run: "getZetaP double_numerics (Array [Fin 300, Fin 520]) [296, 304] False =
     Inr (Array [Fin (1 - exp (- exp (- ((300 - ?M) / ?B)))), Fin (exp (?M - 520 / ?B))],
          Array [fneg (norm_ppf_exact ((1 - exp (- exp (- ((300 - ?M) / ?B)))) / 2)),
                 fneg (norm_ppf_exact (exp (?M - 520 / ?B) / 2))])"
    unfolding getZetaP_def u m va Let_def
    by (simp add: getGumbel_Fin [OF v] gumbelEntry_saturated [OF B0(1) sat]
        gumbelEntry_exact [OF B0(1) ns])
  have "520 < 260 * ?B" using B by simp
  then have "520 / ?B < 260" using B0 by (simp add: pos_divide_less_eq)
  then have "0 < ?M - 520 / ?B" using M by simp
  then have big: "1 < exp (?M - 520 / ?B)" by simp
  have small: "1 - exp (- exp (- ((300 - ?M) / ?B))) < 1" by simp
  from run big small show ?thesis by simp
qed

subsection \<open>calcZetaOne: the exceptions that escape\<close>






































subsection \<open>getTempOffsetOne: identical spike positions\<close>



lemma first_index_le: "first_index v xs \<le> length xs"
  by (simp add: first_index_def length_takeWhile_le)










































end
